theory Spec2Isabelle
  imports Complex_Main
begin

section \<open>JavaScript numbers\<close>

text \<open>
  Every number of the viewer (\<open>scale\<close>, page heights, the zoom deltas) is a JavaScript
  \<open>number\<close>, an IEEE-754 binary64 value. A finite binary64 value is a rational, and
  an arithmetic operation returns the exact result rounded to the nearest representable
  value, ties to the even significand. \<open>fl\<close> is that rounding: \<open>binade\<close> finds the
  exponent \<open>e\<close> with \<open>2^e \<le> |x| < 2^(e+1)\<close>, the significand has 53 bits, and below
  \<open>2^-1022\<close> the spacing stays that of the subnormals. The literal \<open>0.1\<close> of the source
  is \<open>fl (1 / 10)\<close>, and \<open>a + b\<close> of the source is \<open>fl (a + b)\<close>.

  \<open>NaN\<close> and the infinities are not represented. The viewer never produces them: the
  scale starts at \<open>1.0\<close>, is set to \<open>0.9\<close>, and is changed by \<open>zoom(0.1)\<close> and
  \<open>zoom(-0.1)\<close> only. An overflowing sum stays finite in \<open>fl\<close>; under the clamp of
  \<open>zoom\<close> it gives the same result as the infinity of JavaScript.
\<close>

type_synonym number = rat

fun binade :: "nat \<Rightarrow> rat \<Rightarrow> int" where
  "binade 0 x = 0"
| "binade (Suc k) x =
     (if x < 1 then binade k (2 * x) - 1
      else if 2 \<le> x then binade k (x / 2) + 1
      else 0)"

definition pow2 :: "int \<Rightarrow> rat" where
  "pow2 e = (if 0 \<le> e then 2 ^ nat e else 1 / 2 ^ nat (- e))"

definition roundHalfEven :: "rat \<Rightarrow> int" where
  "roundHalfEven q =
     (let n = \<lfloor>q\<rfloor>; r = q - of_int n
      in if r < 1 / 2 then n
         else if 1 / 2 < r then n + 1
         else if even n then n else n + 1)"

definition fl :: "rat \<Rightarrow> number" where
  "fl x =
     (if x = 0 then 0
      else let e = max (binade 1100 \<bar>x\<bar>) (- 1022);
               u = pow2 (e - 52)
           in of_int (roundHalfEven (x / u)) * u)"

section \<open>DocumentViewer: zoom\<close>

text \<open>
  \<^verbatim>\<open>const zoom = (delta: number) => {
    setScale(prev => Math.min(Math.max(0.5, prev + delta), 2.5));
  };\<close>
  \<open>zoomScale\<close> is the updater function handed to \<open>setScale\<close>; \<open>0.5\<close> and \<open>2.5\<close> are
  binary64 values themselves.
\<close>

definition zoomScale :: "number \<Rightarrow> number \<Rightarrow> number" where
  "zoomScale prev delta = min (max (1 / 2) (fl (prev + delta))) (5 / 2)"

text \<open>The default scale of \<open>loadPdf\<close>, \<^verbatim>\<open>setScale(0.9)\<close>, and the two deltas of the controls.\<close>

definition defaultScale :: number where
  "defaultScale = fl (9 / 10)"

definition zoomInDelta :: number where
  "zoomInDelta = fl (1 / 10)"

definition zoomOutDelta :: number where
  "zoomOutDelta = - fl (1 / 10)"

section \<open>pdf.js render tasks\<close>

text \<open>
  pdf.js is an external library. What the viewer uses of it is \<open>pdfDoc.getPage\<close>,
  \<open>page.getViewport\<close>, \<open>page.render\<close> and, of the render task it returns,
  \<open>cancel()\<close> and \<open>promise\<close>. A render task is running until it completes (its
  pixels are on the canvas and the promise is fulfilled), is cancelled (the promise is
  rejected with \<open>RenderingCancelledException\<close>) or fails (any other rejection).
  \<open>cancel()\<close> acts on a running task only; a cancelled task never completes.
\<close>

datatype task_status = Running | Cancelled | Completed | Failed

definition cancel :: "nat \<Rightarrow> task_status list \<Rightarrow> task_status list" where
  "cancel t ts = (if t < length ts \<and> ts ! t = Running then ts[t := Cancelled] else ts)"

section \<open>PdfPage\<close>

text \<open>
  One \<open>record\<close> per mounted instance of the component \<open>PdfPage\<close>: its props, its three
  \<open>useState\<close> cells, its refs. \<open>mounted\<close> says that \<open>canvasRef.current\<close> and
  \<open>containerRef.current\<close> are elements (React sets them to \<open>null\<close> when the
  component unmounts). \<open>observing\<close> says that the IntersectionObserver is connected.
  \<open>hasCleanup\<close> says that the last run of the render effect returned its cleanup
  function (a run that leaves at the first \<open>return\<close> registers none).

  \<open>renderPage\<close> is an \<open>async\<close> function: each call is a coroutine that stops at an
  \<open>await\<close> and is resumed by the event loop. \<open>coroutines\<close> holds every call with the
  \<open>await\<close> it stands at and the props its closure captured. \<open>tasks\<close> holds the status
  of every render task created on this page's canvas (a task is named by its index),
  \<open>canvas\<close> the task whose finished pixels the canvas shows, \<open>commits\<close> the tasks that
  completed on the canvas, oldest first.
\<close>

record doc =
  docId :: nat
  docNumPages :: nat

datatype await = AwaitCancel | AwaitGetPage | AwaitRender nat | Returned

record coroutine =
  stage :: await
  c_pdfDoc :: "doc option"
  c_scale :: number

record pdf_page =
  pageNum :: nat
  p_pdfDoc :: "doc option"
  p_scale :: number
  isVisible :: bool
  isRendered :: bool
  pageHeight :: "number option"
  renderTaskRef :: "nat option"
  mounted :: bool
  observing :: bool
  hasCleanup :: bool
  coroutines :: "coroutine list"
  tasks :: "task_status list"
  canvas :: "nat option"
  commits :: "nat list"

text \<open>
  Mounting: \<open>useState(false)\<close> twice, \<open>useState(undefined)\<close>, \<open>useRef(null)\<close>; the
  observer effect connects the observer to the container; the render effect leaves at
  its first line, the page not being visible.
\<close>

definition mountPage :: "nat \<Rightarrow> doc option \<Rightarrow> number \<Rightarrow> pdf_page" where
  "mountPage n d s =
     \<lparr>pageNum = n, p_pdfDoc = d, p_scale = s, isVisible = False, isRendered = False,
      pageHeight = None, renderTaskRef = None, mounted = True, observing = True,
      hasCleanup = False, coroutines = [], tasks = [], canvas = None, commits = []\<rparr>"

text \<open>
  \<open>renderPage()\<close> up to its first \<open>await\<close>:
  \<^verbatim>\<open>if (renderTaskRef.current) { await renderTaskRef.current.cancel(); }
  const page = await pdfDoc.getPage(pageNum);\<close>
  \<open>cancel()\<close> is called at once; the \<open>await\<close> of its result yields to the event loop.
\<close>

definition renderPage :: "pdf_page \<Rightarrow> pdf_page" where
  "renderPage pg =
     (case renderTaskRef pg of
        Some t \<Rightarrow>
          pg\<lparr>tasks := cancel t (tasks pg),
             coroutines := coroutines pg @
               [\<lparr>stage = AwaitCancel, c_pdfDoc = p_pdfDoc pg, c_scale = p_scale pg\<rparr>]\<rparr>
      | None \<Rightarrow>
          pg\<lparr>coroutines := coroutines pg @
               [\<lparr>stage = AwaitGetPage, c_pdfDoc = p_pdfDoc pg, c_scale = p_scale pg\<rparr>]\<rparr>)"

text \<open>
  The render effect, \<^verbatim>\<open>useEffect(() => { if (!isVisible || !pdfDoc || !canvasRef.current) return;
  ... renderPage(); return () => { if (renderTaskRef.current) renderTaskRef.current.cancel(); }; },
  [isVisible, pdfDoc, pageNum, scale])\<close>, and its cleanup. React runs the cleanup the last
  run returned, then the effect, whenever a dependency has changed.
\<close>

definition renderEffect :: "pdf_page \<Rightarrow> pdf_page" where
  "renderEffect pg =
     (if \<not> isVisible pg \<or> p_pdfDoc pg = None \<or> \<not> mounted pg then pg\<lparr>hasCleanup := False\<rparr>
      else (renderPage pg)\<lparr>hasCleanup := True\<rparr>)"

definition renderCleanup :: "pdf_page \<Rightarrow> pdf_page" where
  "renderCleanup pg =
     (case renderTaskRef pg of
        Some t \<Rightarrow> pg\<lparr>tasks := cancel t (tasks pg)\<rparr>
      | None \<Rightarrow> pg)"

definition rerunRenderEffect :: "pdf_page \<Rightarrow> pdf_page" where
  "rerunRenderEffect pg = renderEffect (if hasCleanup pg then renderCleanup pg else pg)"

text \<open>The parent renders the page again with props \<open>pdfDoc\<close> and \<open>scale\<close>.\<close>

definition rerender :: "doc option \<Rightarrow> number \<Rightarrow> pdf_page \<Rightarrow> pdf_page" where
  "rerender d s pg =
     (if \<not> mounted pg then pg
      else if p_pdfDoc pg = d \<and> p_scale pg = s then pg
      else rerunRenderEffect (pg\<lparr>p_pdfDoc := d, p_scale := s\<rparr>))"

text \<open>
  The observer's callback,
  \<^verbatim>\<open>([entry]) => { if (entry.isIntersecting) { setIsVisible(true); observer.disconnect(); } }\<close>.
  A disconnected observer delivers nothing. Setting \<open>isVisible\<close> changes a dependency
  of the render effect.
\<close>

definition observerCallback :: "bool \<Rightarrow> pdf_page \<Rightarrow> pdf_page" where
  "observerCallback isIntersecting pg =
     (if \<not> observing pg then pg
      else if isIntersecting then
        (if isVisible pg then pg\<lparr>observing := False\<rparr>
         else rerunRenderEffect (pg\<lparr>isVisible := True, observing := False\<rparr>))
      else pg)"

text \<open>Unmounting runs both cleanups and clears the refs to the elements.\<close>

definition unmount :: "pdf_page \<Rightarrow> pdf_page" where
  "unmount pg =
     (if hasCleanup pg then renderCleanup pg else pg)
       \<lparr>mounted := False, observing := False, hasCleanup := False\<rparr>"

text \<open>
  Resuming a coroutine of \<open>renderPage\<close>. What \<open>getPage\<close> and \<open>getViewport\<close> deliver
  comes from pdf.js: \<open>Resolved h ctx\<close> is a page whose viewport at the captured scale has
  height \<open>h\<close>, \<open>ctx\<close> telling whether \<open>canvas.getContext('2d')\<close> is an object;
  \<open>Rejected\<close> is an exception, which the \<open>catch\<close> logs. The second component is the
  height handed to \<open>onDimensionsResolved\<close>, if the call is reached.
  \<^verbatim>\<open>const page = await pdfDoc.getPage(pageNum);
  const viewport = page.getViewport({ scale });
  const currentHeight = viewport.height;
  setPageHeight(currentHeight);
  if (onDimensionsResolved) { onDimensionsResolved(currentHeight); }
  const canvas = canvasRef.current;
  if (!canvas) return;
  const context = canvas.getContext('2d');
  if (!context) return;
  canvas.height = currentHeight; canvas.width = viewport.width;
  const renderTask = page.render(renderContext);
  renderTaskRef.current = renderTask;
  await renderTask.promise;
  setIsRendered(true);\<close>
  A state setter of an unmounted component does nothing. Assigning \<open>canvas.height\<close>
  clears the canvas. A coroutine at \<open>await renderTask.promise\<close> resumes once the task is
  no longer running.
\<close>

datatype outcome = Resolved number bool | Rejected

definition setAt :: "nat \<Rightarrow> await \<Rightarrow> pdf_page \<Rightarrow> pdf_page" where
  "setAt i a pg = pg\<lparr>coroutines := (coroutines pg)[i := (coroutines pg ! i)\<lparr>stage := a\<rparr>]\<rparr>"

definition resume :: "nat \<Rightarrow> outcome \<Rightarrow> pdf_page \<Rightarrow> pdf_page \<times> number option" where
  "resume i oc pg =
     (if length (coroutines pg) \<le> i then (pg, None)
      else case stage (coroutines pg ! i) of
        AwaitCancel \<Rightarrow> (setAt i AwaitGetPage pg, None)
      | AwaitGetPage \<Rightarrow>
          (case oc of
             Rejected \<Rightarrow> (setAt i Returned pg, None)
           | Resolved h ctx \<Rightarrow>
               (if \<not> mounted pg then (setAt i Returned pg, Some h)
                else if \<not> ctx then (setAt i Returned (pg\<lparr>pageHeight := Some h\<rparr>), Some h)
                else
                  (setAt i (AwaitRender (length (tasks pg)))
                     (pg\<lparr>pageHeight := Some h, canvas := None,
                        tasks := tasks pg @ [Running],
                        renderTaskRef := Some (length (tasks pg))\<rparr>),
                   Some h)))
      | AwaitRender t \<Rightarrow>
          (if length (tasks pg) \<le> t \<or> tasks pg ! t = Running then (pg, None)
           else if tasks pg ! t = Completed then
             (setAt i Returned (if mounted pg then pg\<lparr>isRendered := True\<rparr> else pg), None)
           else (setAt i Returned pg, None))
      | Returned \<Rightarrow> (pg, None))"

text \<open>pdf.js finishes painting a running task, or the task fails.\<close>

definition taskDone :: "nat \<Rightarrow> pdf_page \<Rightarrow> pdf_page" where
  "taskDone t pg =
     (if t < length (tasks pg) \<and> tasks pg ! t = Running
      then pg\<lparr>tasks := (tasks pg)[t := Completed], canvas := Some t, commits := commits pg @ [t]\<rparr>
      else pg)"

definition taskFail :: "nat \<Rightarrow> pdf_page \<Rightarrow> pdf_page" where
  "taskFail t pg =
     (if t < length (tasks pg) \<and> tasks pg ! t = Running
      then pg\<lparr>tasks := (tasks pg)[t := Failed]\<rparr>
      else pg)"

text \<open>Everything that can happen to one page, as one step function.\<close>

datatype page_event =
    Observe bool
  | Props "doc option" number
  | Resume nat outcome
  | TaskDone nat
  | TaskFail nat
  | Unmount

fun page_step :: "page_event \<Rightarrow> pdf_page \<Rightarrow> pdf_page \<times> number option" where
  "page_step (Observe b) pg = (observerCallback b pg, None)"
| "page_step (Props d s) pg = (rerender d s pg, None)"
| "page_step (Resume i oc) pg = resume i oc pg"
| "page_step (TaskDone t) pg = (taskDone t pg, None)"
| "page_step (TaskFail t) pg = (taskFail t pg, None)"
| "page_step Unmount pg = (if mounted pg then unmount pg else pg, None)"

definition page_run :: "page_event list \<Rightarrow> pdf_page \<Rightarrow> pdf_page" where
  "page_run evs pg = foldl (\<lambda>p ev. fst (page_step ev p)) pg evs"


section \<open>Location references\<close>

text \<open>
  A JavaScript string is a sequence of UTF-16 code units; the model has the code units
  below 256, as \<open>char\<close>. \<open>isWhiteSpace\<close> is the class \<open>\s\<close> of a regular expression,
  which is also what \<open>parseInt\<close> skips (tab, line feed, vertical tab, form feed,
  carriage return, space, no-break space, among the code units below 256); \<open>isDigit\<close>
  is \<open>\d\<close>. Under the flag \<open>i\<close> (without \<open>u\<close>) a letter of the pattern matches itself
  and its upper case.
\<close>

definition isWhiteSpace :: "char \<Rightarrow> bool" where
  "isWhiteSpace c = ((of_char c :: nat) \<in> {9, 10, 11, 12, 13, 32, 160})"

definition isDigit :: "char \<Rightarrow> bool" where
  "isDigit c = (48 \<le> (of_char c :: nat) \<and> (of_char c :: nat) \<le> 57)"

definition letterCI :: "char \<Rightarrow> char \<Rightarrow> bool" where
  "letterCI p c = (c = p \<or> (of_char c :: nat) + 32 = of_char p)"

fun prefixCI :: "string \<Rightarrow> string \<Rightarrow> string option" where
  "prefixCI [] s = Some s"
| "prefixCI (p # ps) [] = None"
| "prefixCI (p # ps) (c # cs) = (if letterCI p c then prefixCI ps cs else None)"

text \<open>
  \<^verbatim>\<open>location.match(/page\s*[=]?\s*(\d+)/i)\<close>. \<open>matchHere\<close> matches the pattern at the
  start of a string and returns group 1. The three classes \<open>\s\<close>, \<open>=\<close> and \<open>\d\<close> are
  disjoint, so the greedy run is the only way to match: taking fewer white space or
  leaving a present \<open>=\<close> out puts a character in front of \<open>\d+\<close> that is no digit.
  \<open>pageMatch\<close> tries every start from the left, as a match without the flag \<open>g\<close> does.
\<close>

definition matchHere :: "string \<Rightarrow> string option" where
  "matchHere s =
     (case prefixCI ''page'' s of
        None \<Rightarrow> None
      | Some r0 \<Rightarrow>
          (let r1 = dropWhile isWhiteSpace r0;
               r2 = (case r1 of [] \<Rightarrow> r1 | c # cs \<Rightarrow> if c = CHR ''='' then cs else r1);
               r3 = dropWhile isWhiteSpace r2;
               ds = takeWhile isDigit r3
           in if ds = [] then None else Some ds))"

fun pageMatch :: "string \<Rightarrow> string option" where
  "pageMatch [] = None"
| "pageMatch (c # cs) =
     (case matchHere (c # cs) of
        Some ds \<Rightarrow> Some ds
      | None \<Rightarrow> pageMatch cs)"

text \<open>
  \<^verbatim>\<open>const handleJumpToLocation = (location: string) => {
    let pageMatch = location.match(/page\s*[=]?\s*(\d+)/i);
    if (pageMatch && pageMatch[1]) { setViewerLocation(pageMatch[1]); }
    else { setViewerLocation(location.replace('#', '')); }
  };\<close>
  The result is the new value of \<open>viewerLocation\<close>, which \<open>Analyzer\<close> hands to the viewer
  as its prop \<open>location\<close>. Group 1 is never empty. \<open>replace\<close> with a string pattern
  replaces the first occurrence.
\<close>

definition handleJumpToLocation :: "string \<Rightarrow> string" where
  "handleJumpToLocation location =
     (case pageMatch location of
        Some ds \<Rightarrow> ds
      | None \<Rightarrow> remove1 (CHR ''#'') location)"

text \<open>
  \<open>parseInt(s, 10)\<close>: white space is skipped, a sign is read, then the longest run of
  digits; no digit gives \<open>NaN\<close>, here \<open>None\<close>. The value is exact here; JavaScript
  rounds a value above \<open>2^53\<close>, which is beyond every page count.
\<close>

definition digitsVal :: "string \<Rightarrow> nat" where
  "digitsVal ds = foldl (\<lambda>acc c. 10 * acc + ((of_char c :: nat) - 48)) 0 ds"

definition parseInt :: "string \<Rightarrow> int option" where
  "parseInt s =
     (let t = dropWhile isWhiteSpace s;
          neg = (case t of [] \<Rightarrow> False | c # cs \<Rightarrow> c = CHR ''-'');
          u = (case t of [] \<Rightarrow> t | c # cs \<Rightarrow> if c = CHR ''-'' \<or> c = CHR ''+'' then cs else t);
          ds = takeWhile isDigit u
      in if ds = [] then None
         else Some (if neg then - int (digitsVal ds) else int (digitsVal ds)))"

section \<open>DocumentViewer\<close>

text \<open>
  The props (\<open>fileData\<close>, \<open>mimeType\<close>, \<open>location\<close>) and the \<open>useState\<close> cells of the
  component. \<open>pendingLoads\<close> counts the calls of \<open>loadPdf\<close> that stand at
  \<open>await loadingTask.promise\<close>. \<open>pages\<close> holds every instance of \<open>PdfPage\<close> created so
  far; the mounted ones are the children rendered now. \<open>scrolled\<close> lists the pages on
  whose element the location effect has called \<open>scrollIntoView\<close>, oldest first. The
  call of \<open>focus()\<close> that follows it is not recorded: what it does is the browser's matter.
\<close>

datatype error_kind = Password | Corrupt | Generic

record viewer =
  fileData :: string
  mimeType :: string
  location :: "string option"
  src :: string
  error :: "string option"
  errorType :: error_kind
  loading :: bool
  workerReady :: bool
  pdfDoc :: "doc option"
  numPages :: nat
  scale :: number
  estimatedPageHeight :: "number option"
  pendingLoads :: nat
  pages :: "pdf_page list"
  scrolled :: "nat list"

definition isPdf :: "viewer \<Rightarrow> bool" where
  "isPdf st = (mimeType st = ''application/pdf'')"

definition initViewer :: "string \<Rightarrow> string \<Rightarrow> string option \<Rightarrow> viewer" where
  "initViewer fd mt loc =
     \<lparr>fileData = fd, mimeType = mt, location = loc, src = [], error = None,
      errorType = Generic, loading = False, workerReady = False, pdfDoc = None,
      numPages = 0, scale = 1, estimatedPageHeight = None, pendingLoads = 0,
      pages = [], scrolled = []\<rparr>"

text \<open>
  The load effect, up to the \<open>await\<close> of \<open>loadPdf\<close>:
  \<^verbatim>\<open>if (!fileData || (isPdf && !workerReady)) return;
  setError(null); setPdfDoc(null); setNumPages(0); setEstimatedPageHeight(undefined);
  if (isPdf) { ... setLoading(true); ... const doc = await loadingTask.promise; ... }
  else { setSrc(`data:${mimeType};base64,${fileData}`); }\<close>
\<close>

definition loadEffect :: "viewer \<Rightarrow> viewer" where
  "loadEffect st =
     (if fileData st = [] \<or> (isPdf st \<and> \<not> workerReady st) then st
      else if isPdf st then
        st\<lparr>error := None, pdfDoc := None, numPages := 0, estimatedPageHeight := None,
           loading := True, pendingLoads := pendingLoads st + 1\<rparr>
      else
        st\<lparr>error := None, pdfDoc := None, numPages := 0, estimatedPageHeight := None,
           src := ''data:'' @ mimeType st @ '';base64,'' @ fileData st\<rparr>)"

text \<open>
  \<open>loadPdf\<close> after the \<open>await\<close>. The \<open>try\<close> block goes on with the document; the
  \<open>catch\<close> block classifies by \<open>err.name\<close> (an exception of \<open>atob\<close> on the way to the
  \<open>await\<close> lands in the same \<open>catch\<close>).
\<close>

definition loadPdf_resolved :: "doc \<Rightarrow> viewer \<Rightarrow> viewer" where
  "loadPdf_resolved d st =
     st\<lparr>pdfDoc := Some d, numPages := docNumPages d, scale := fl (9 / 10), loading := False\<rparr>"

definition loadPdf_rejected :: "string \<Rightarrow> viewer \<Rightarrow> viewer" where
  "loadPdf_rejected name st =
     (if name = ''PasswordException'' then
        st\<lparr>loading := False,
           error := Some ''This document is password protected. Please remove the password and try again.'',
           errorType := Password\<rparr>
      else if name = ''InvalidPDFException'' \<or> name = ''MissingPDFException'' then
        st\<lparr>loading := False,
           error := Some ''The PDF file appears to be corrupted or invalid. Please try another file.'',
           errorType := Corrupt\<rparr>
      else
        st\<lparr>loading := False,
           error := Some ''Could not render this document. It may be using an unsupported format or feature.'',
           errorType := Generic\<rparr>)"

text \<open>\<^verbatim>\<open>const zoom = (delta) => { setScale(prev => ...) }\<close> and the key handler.\<close>

definition zoom :: "number \<Rightarrow> viewer \<Rightarrow> viewer" where
  "zoom delta st = st\<lparr>scale := zoomScale (scale st) delta\<rparr>"

definition handleKeyDown :: "string \<Rightarrow> viewer \<Rightarrow> viewer" where
  "handleKeyDown key st =
     (if key = ''='' \<or> key = ''+'' then zoom (fl (1 / 10)) st
      else if key = ''-'' then zoom (- fl (1 / 10)) st
      else st)"

text \<open>
  \<^verbatim>\<open>setEstimatedPageHeight(prev => prev ? prev : height)\<close>: \<open>undefined\<close> and \<open>0\<close> are
  the falsy values a height can have here.
\<close>

definition handleDimensionsResolved :: "number \<Rightarrow> number option \<Rightarrow> number option" where
  "handleDimensionsResolved height prev =
     (case prev of
        None \<Rightarrow> Some height
      | Some p \<Rightarrow> if p = 0 then Some height else Some p)"

text \<open>\<^verbatim>\<open>onError={() => setError("Image could not be loaded.")}\<close>\<close>

definition imgOnError :: "viewer \<Rightarrow> viewer" where
  "imgOnError st = st\<lparr>error := Some ''Image could not be loaded.''\<rparr>"

text \<open>
  What the component returns. With an error it is the "Unable to Preview" screen, whose
  icon is chosen by \<open>errorType\<close>; otherwise the toolbar and the content area, which for a
  PDF with a document holds one \<open>PdfPage\<close> per page number \<open>1 .. numPages\<close>.
\<close>

datatype screen = UnableToPreview error_kind string | Surface

definition render :: "viewer \<Rightarrow> screen" where
  "render st =
     (case error st of
        Some msg \<Rightarrow> UnableToPreview (errorType st) msg
      | None \<Rightarrow> Surface)"

definition wantedPages :: "viewer \<Rightarrow> nat list" where
  "wantedPages st =
     (if error st = None \<and> isPdf st \<and> pdfDoc st \<noteq> None then [1 ..< numPages st + 1] else [])"

definition pageEl :: "nat \<Rightarrow> viewer \<Rightarrow> bool" where
  "pageEl n st = list_ex (\<lambda>pg. mounted pg \<and> pageNum pg = n) (pages st)"

text \<open>
  React's commit of a render: a mounted page whose number is still wanted is rendered
  again with the current props, one that is not is unmounted, and a wanted number with no
  mounted page gets a fresh instance (the key of a page is its number).
\<close>

definition reconcile :: "viewer \<Rightarrow> viewer" where
  "reconcile st =
     st\<lparr>pages :=
          map (\<lambda>pg. if \<not> mounted pg then pg
                    else if pageNum pg \<in> set (wantedPages st)
                    then rerender (pdfDoc st) (scale st) pg
                    else unmount pg) (pages st)
          @ map (\<lambda>n. mountPage n (pdfDoc st) (scale st))
              (filter (\<lambda>n. \<not> pageEl n st) (wantedPages st))\<rparr>"

text \<open>
  The location effect:
  \<^verbatim>\<open>if (location && isPdf && numPages > 0) {
    const targetPage = parseInt(location, 10);
    if (!isNaN(targetPage) && targetPage > 0 && targetPage <= numPages) {
      const pageEl = document.getElementById(`page-${targetPage}`);
      if (pageEl) { pageEl.scrollIntoView(...); pageEl.focus(); }
    }
  }\<close>
  \<open>locationTarget\<close> is the page on whose element it calls \<open>scrollIntoView\<close>, if any.
\<close>

definition locationTarget :: "viewer \<Rightarrow> nat option" where
  "locationTarget st =
     (case location st of
        None \<Rightarrow> None
      | Some l \<Rightarrow>
          if l \<noteq> [] \<and> isPdf st \<and> 0 < numPages st then
            (case parseInt l of
               None \<Rightarrow> None
             | Some targetPage \<Rightarrow>
                 if 0 < targetPage \<and> targetPage \<le> int (numPages st)
                    \<and> pageEl (nat targetPage) st
                 then Some (nat targetPage) else None)
          else None)"

definition locationEffect :: "viewer \<Rightarrow> viewer" where
  "locationEffect st =
     (case locationTarget st of
        None \<Rightarrow> st
      | Some n \<Rightarrow> st\<lparr>scrolled := scrolled st @ [n]\<rparr>)"

text \<open>
  After a handler has changed the state, React renders, commits, and runs the effects
  whose dependencies changed, in the order of the source: the location effect
  (\<open>[location, numPages, isPdf]\<close>), then the load effect
  (\<open>[fileData, mimeType, isPdf, workerReady]\<close>), whose own state changes are rendered in
  turn.
\<close>

definition runLocationEffect :: "viewer \<Rightarrow> viewer \<Rightarrow> viewer" where
  "runLocationEffect old new =
     (if location old = location new \<and> numPages old = numPages new \<and> isPdf old = isPdf new
      then new else locationEffect new)"

definition runLoadEffect :: "viewer \<Rightarrow> viewer \<Rightarrow> viewer" where
  "runLoadEffect old new =
     (if fileData old = fileData new \<and> mimeType old = mimeType new
         \<and> workerReady old = workerReady new
      then new else runLocationEffect new (reconcile (loadEffect new)))"

definition commit :: "viewer \<Rightarrow> viewer \<Rightarrow> viewer" where
  "commit old new = runLoadEffect old (runLocationEffect old (reconcile new))"

text \<open>Mounting the viewer runs every effect once; the worker becomes ready later.\<close>

definition mountViewer :: "string \<Rightarrow> string \<Rightarrow> string option \<Rightarrow> viewer" where
  "mountViewer fd mt loc =
     runLocationEffect (initViewer fd mt loc)
       (reconcile (loadEffect (locationEffect (initViewer fd mt loc))))"

text \<open>
  The events of a mounted viewer: new props from \<open>Analyzer\<close> (a file, or a click on a
  reference, which goes through \<open>handleJumpToLocation\<close>), the worker script arriving,
  the decoding of a pending \<open>loadPdf\<close> ending, the zoom buttons and keys (they exist
  while no error is shown, the buttons for a PDF only), the \<open>onError\<close> of the image (it
  exists for a non-PDF while no error is shown), and what happens to a page: its
  observer fires, one of its coroutines resumes, one of its tasks ends.
\<close>

datatype event =
    SetFile string string
  | Jump string
  | WorkerReady
  | DecodeOk doc
  | DecodeFail string
  | ZoomIn
  | ZoomOut
  | KeyDown string
  | ImgError
  | Page nat page_event

definition pageEvent :: "nat \<Rightarrow> page_event \<Rightarrow> viewer \<Rightarrow> viewer" where
  "pageEvent k ev st =
     (if length (pages st) \<le> k then st
      else case page_step ev (pages st ! k) of
        (pg, None) \<Rightarrow> st\<lparr>pages := (pages st)[k := pg]\<rparr>
      | (pg, Some h) \<Rightarrow>
          st\<lparr>pages := (pages st)[k := pg],
             estimatedPageHeight := handleDimensionsResolved h (estimatedPageHeight st)\<rparr>)"

fun handle :: "event \<Rightarrow> viewer \<Rightarrow> viewer" where
  "handle (SetFile fd mt) st = st\<lparr>fileData := fd, mimeType := mt\<rparr>"
| "handle (Jump ref) st = st\<lparr>location := Some (handleJumpToLocation ref)\<rparr>"
| "handle WorkerReady st = st\<lparr>workerReady := True\<rparr>"
| "handle (DecodeOk d) st =
     (if 0 < pendingLoads st
      then loadPdf_resolved d (st\<lparr>pendingLoads := pendingLoads st - 1\<rparr>) else st)"
| "handle (DecodeFail name) st =
     (if 0 < pendingLoads st
      then loadPdf_rejected name (st\<lparr>pendingLoads := pendingLoads st - 1\<rparr>) else st)"
| "handle ZoomIn st = (if error st = None \<and> isPdf st then zoom (fl (1 / 10)) st else st)"
| "handle ZoomOut st = (if error st = None \<and> isPdf st then zoom (- fl (1 / 10)) st else st)"
| "handle (KeyDown key) st = (if error st = None then handleKeyDown key st else st)"
| "handle ImgError st = (if error st = None \<and> \<not> isPdf st then imgOnError st else st)"
| "handle (Page k (Observe b)) st = pageEvent k (Observe b) st"
| "handle (Page k (Resume i oc)) st = pageEvent k (Resume i oc) st"
| "handle (Page k (TaskDone t)) st = pageEvent k (TaskDone t) st"
| "handle (Page k (TaskFail t)) st = pageEvent k (TaskFail t) st"
| "handle (Page k (Props d s)) st = st"
| "handle (Page k Unmount) st = st"

definition step :: "event \<Rightarrow> viewer \<Rightarrow> viewer" where
  "step ev st = commit st (handle ev st)"

definition run :: "event list \<Rightarrow> viewer \<Rightarrow> viewer" where
  "run evs st = foldl (\<lambda>s ev. step ev s) st evs"


text \<open>
  The load state of the specification, read off the component's state the way its
  \<open>return\<close> statements do: an error shows the error screen, \<open>loading\<close> the overlay,
  a document the pages.
\<close>

datatype load_state = Idle | Loading | Ready | Error error_kind

definition loadState :: "viewer \<Rightarrow> load_state" where
  "loadState st =
     (case error st of
        Some msg \<Rightarrow> Error (errorType st)
      | None \<Rightarrow> if loading st then Loading else if pdfDoc st \<noteq> None then Ready else Idle)"

text \<open>
  The events that can start the load effect, since they change one of its dependencies.
  Between two of them the viewer shows one document.
\<close>

fun isLoad :: "event \<Rightarrow> bool" where
  "isLoad (SetFile fd mt) = True"
| "isLoad WorkerReady = True"
| "isLoad ev = False"

text \<open>The delta that a zoom button hands to \<open>zoom\<close>.\<close>

fun zoomDelta :: "event \<Rightarrow> number" where
  "zoomDelta ZoomIn = fl (1 / 10)"
| "zoomDelta ZoomOut = - fl (1 / 10)"
| "zoomDelta ev = 0"

text \<open>
  A viewer that was mounted with a PDF file, whose worker became ready and whose decoding
  gave a document of \<open>n\<close> pages.
\<close>

definition loaded :: "nat \<Rightarrow> viewer" where
  "loaded n = run [WorkerReady, DecodeOk \<lparr>docId = 0, docNumPages = n\<rparr>]
     (mountViewer ''JVBERi0xLjQK'' ''application/pdf'' None)"

section \<open>Properties\<close>

subsection \<open>Evaluating the rounding\<close>

lemma binade_numeral:
  "binade (numeral k) x =
     (if x < 1 then binade (pred_numeral k) (2 * x) - 1
      else if 2 \<le> x then binade (pred_numeral k) (x / 2) + 1
      else 0)"
  by (simp add: numeral_eq_Suc)

lemma floor_rat_numeral_div:
  "\<lfloor>(numeral a :: rat) / numeral b\<rfloor> = numeral a div numeral b"
  by (metis floor_divide_of_int_eq of_int_numeral)

lemma floor_rat_neg_numeral_div:
  "\<lfloor>- ((numeral a :: rat) / numeral b)\<rfloor> = - numeral a div numeral b"
  by (metis divide_minus_left floor_divide_of_int_eq of_int_neg_numeral of_int_numeral)

lemmas fl_eval = fl_def roundHalfEven_def pow2_def Let_def binade_numeral
  floor_rat_numeral_div floor_rat_neg_numeral_div

lemma fl_tenth: "fl (1 / 10) = 3602879701896397 / 36028797018963968"
  by (simp add: fl_eval)

lemma fl_nine_tenths: "fl (9 / 10) = 8106479329266893 / 9007199254740992"
  by (simp add: fl_eval)

subsection \<open>Zoom stays in range\<close>

text \<open>
  C2. Whatever the scale before and whatever the delta, the scale after \<open>zoom\<close> lies in
  \<open>[0.5, 2.5]\<close>: the clamp is applied to the rounded sum, and both bounds are binary64
  values.
\<close>

theorem zoom_scale_in_range:
  "1 / 2 \<le> scale (zoom delta st) \<and> scale (zoom delta st) \<le> 5 / 2"
  by (simp add: zoom_def zoomScale_def)

subsection \<open>Pages keep their visibility\<close>

lemma isVisible_cancel_free [simp]:
  "isVisible (renderCleanup pg) = isVisible pg"
  "isVisible (renderPage pg) = isVisible pg"
  by (simp_all add: renderCleanup_def renderPage_def split: option.splits)

lemma isVisible_renderEffect [simp]: "isVisible (renderEffect pg) = isVisible pg"
  by (simp add: renderEffect_def)

lemma isVisible_rerunRenderEffect [simp]: "isVisible (rerunRenderEffect pg) = isVisible pg"
  by (simp add: rerunRenderEffect_def)

lemma isVisible_rerender [simp]: "isVisible (rerender d s pg) = isVisible pg"
  by (simp add: rerender_def)

lemma isVisible_unmount [simp]: "isVisible (unmount pg) = isVisible pg"
  by (simp add: unmount_def)

lemma isVisible_setAt [simp]: "isVisible (setAt i a pg) = isVisible pg"
  by (simp add: setAt_def)

lemma isVisible_task [simp]:
  "isVisible (taskDone t pg) = isVisible pg"
  "isVisible (taskFail t pg) = isVisible pg"
  by (simp_all add: taskDone_def taskFail_def)

lemma isVisible_resume [simp]: "isVisible (fst (resume i oc pg)) = isVisible pg"
  by (simp add: resume_def split: await.splits outcome.splits)

lemma isVisible_observerCallback: "isVisible pg \<Longrightarrow> isVisible (observerCallback b pg)"
  by (simp add: observerCallback_def)

lemma isVisible_page_step: "isVisible pg \<Longrightarrow> isVisible (fst (page_step ev pg))"
  by (cases ev) (simp_all add: isVisible_observerCallback)

lemma pageEvent_visible:
  assumes "k < length (pages st)" "isVisible (pages st ! k)"
  shows "k < length (pages (pageEvent j ev st)) \<and> isVisible (pages (pageEvent j ev st) ! k)"
proof (cases "length (pages st) \<le> j")
  case True
  with assms show ?thesis by (simp add: pageEvent_def)
next
  case False
  obtain pg h where ps: "page_step ev (pages st ! j) = (pg, h)" by (cases "page_step ev (pages st ! j)")
  have vis: "j = k \<Longrightarrow> isVisible pg"
    using isVisible_page_step [of "pages st ! k" ev] assms(2) ps by simp
  show ?thesis
    using False assms ps vis
    by (cases h) (auto simp: pageEvent_def nth_list_update)
qed

lemma handle_visible:
  assumes "k < length (pages st)" "isVisible (pages st ! k)"
  shows "k < length (pages (handle ev st)) \<and> isVisible (pages (handle ev st) ! k)"
proof (cases ev)
  case (Page j pev)
  then show ?thesis using assms pageEvent_visible [OF assms] by (cases pev) simp_all
qed (use assms in \<open>simp_all add: loadPdf_resolved_def loadPdf_rejected_def zoom_def
      handleKeyDown_def imgOnError_def\<close>)

lemma reconcile_visible:
  assumes "k < length (pages st)" "isVisible (pages st ! k)"
  shows "k < length (pages (reconcile st)) \<and> isVisible (pages (reconcile st) ! k)"
  using assms by (simp add: reconcile_def nth_append)

lemma pages_loadEffect [simp]: "pages (loadEffect st) = pages st"
  by (simp add: loadEffect_def)

lemma pages_locationEffect [simp]: "pages (locationEffect st) = pages st"
  by (simp add: locationEffect_def split: option.splits)

lemma pages_runLocationEffect [simp]: "pages (runLocationEffect old st) = pages st"
  by (simp add: runLocationEffect_def)

lemma commit_visible:
  assumes "k < length (pages new)" "isVisible (pages new ! k)"
  shows "k < length (pages (commit old new)) \<and> isVisible (pages (commit old new) ! k)"
proof -
  let ?s1 = "runLocationEffect old (reconcile new)"
  have a: "k < length (pages ?s1) \<and> isVisible (pages ?s1 ! k)"
    using reconcile_visible [OF assms] by simp
  have b: "k < length (pages (loadEffect ?s1)) \<and> isVisible (pages (loadEffect ?s1) ! k)"
    using a by simp
  show ?thesis
    using a reconcile_visible [of k "loadEffect ?s1"] b
    by (simp add: commit_def runLoadEffect_def)
qed

lemma step_visible:
  assumes "k < length (pages st)" "isVisible (pages st ! k)"
  shows "k < length (pages (step ev st)) \<and> isVisible (pages (step ev st) ! k)"
  unfolding step_def using commit_visible handle_visible [OF assms] by blast

text \<open>
  C5. The visibility flag of a page is monotonic. Whatever events follow (scrolling, that
  is observer callbacks with \<open>isIntersecting\<close> true or false, zooming, renders starting
  and ending, even the loading of another file), the instance of \<open>PdfPage\<close> at index
  \<open>k\<close> still exists and its \<open>isVisible\<close> is still true: the source calls
  \<open>setIsVisible\<close> with \<open>true\<close> only.
\<close>

theorem visibility_monotonic:
  "k < length (pages st) \<Longrightarrow> isVisible (pages st ! k) \<Longrightarrow>
     k < length (pages (run evs st)) \<and> isVisible (pages (run evs st) ! k)"
proof (induction evs arbitrary: st)
  case Nil
  then show ?case by (simp add: run_def)
next
  case (Cons ev evs)
  have "run (ev # evs) st = run evs (step ev st)" by (simp add: run_def)
  then show ?case using Cons.IH step_visible [OF Cons.prems] by simp
qed

subsection \<open>What a commit leaves alone\<close>

lemma reconcile_fields [simp]:
  "error (reconcile st) = error st"
  "errorType (reconcile st) = errorType st"
  "loading (reconcile st) = loading st"
  "pdfDoc (reconcile st) = pdfDoc st"
  "numPages (reconcile st) = numPages st"
  "scale (reconcile st) = scale st"
  "estimatedPageHeight (reconcile st) = estimatedPageHeight st"
  "fileData (reconcile st) = fileData st"
  "mimeType (reconcile st) = mimeType st"
  "workerReady (reconcile st) = workerReady st"
  "location (reconcile st) = location st"
  "scrolled (reconcile st) = scrolled st"
  "pendingLoads (reconcile st) = pendingLoads st"
  by (simp_all add: reconcile_def)

lemma locationEffect_fields [simp]:
  "error (locationEffect st) = error st"
  "errorType (locationEffect st) = errorType st"
  "loading (locationEffect st) = loading st"
  "pdfDoc (locationEffect st) = pdfDoc st"
  "numPages (locationEffect st) = numPages st"
  "scale (locationEffect st) = scale st"
  "estimatedPageHeight (locationEffect st) = estimatedPageHeight st"
  "fileData (locationEffect st) = fileData st"
  "mimeType (locationEffect st) = mimeType st"
  "workerReady (locationEffect st) = workerReady st"
  "location (locationEffect st) = location st"
  "pendingLoads (locationEffect st) = pendingLoads st"
  by (simp_all add: locationEffect_def split: option.splits)

lemma runLocationEffect_fields [simp]:
  "error (runLocationEffect old st) = error st"
  "errorType (runLocationEffect old st) = errorType st"
  "loading (runLocationEffect old st) = loading st"
  "pdfDoc (runLocationEffect old st) = pdfDoc st"
  "numPages (runLocationEffect old st) = numPages st"
  "scale (runLocationEffect old st) = scale st"
  "estimatedPageHeight (runLocationEffect old st) = estimatedPageHeight st"
  "fileData (runLocationEffect old st) = fileData st"
  "mimeType (runLocationEffect old st) = mimeType st"
  "workerReady (runLocationEffect old st) = workerReady st"
  "location (runLocationEffect old st) = location st"
  "pendingLoads (runLocationEffect old st) = pendingLoads st"
  by (simp_all add: runLocationEffect_def)

lemma commit_same_file:
  "fileData new = fileData old \<Longrightarrow> mimeType new = mimeType old \<Longrightarrow>
   workerReady new = workerReady old \<Longrightarrow>
   commit old new = runLocationEffect old (reconcile new)"
  by (simp add: commit_def runLoadEffect_def)

lemma handle_same_file:
  "\<not> isLoad ev \<Longrightarrow>
   fileData (handle ev st) = fileData st \<and> mimeType (handle ev st) = mimeType st
   \<and> workerReady (handle ev st) = workerReady st"
proof (cases ev)
  case (Page j pev)
  then show ?thesis
    by (cases pev) (simp_all add: pageEvent_def split: prod.splits option.splits)
qed (simp_all add: loadPdf_resolved_def loadPdf_rejected_def zoom_def handleKeyDown_def
      imgOnError_def)

lemma step_same_file:
  "\<not> isLoad ev \<Longrightarrow> step ev st = runLocationEffect st (reconcile (handle ev st))"
  unfolding step_def using handle_same_file [of ev st] by (simp add: commit_same_file)

subsection \<open>The estimate of the page height\<close>

lemma handleDimensionsResolved_keeps:
  "h \<noteq> 0 \<Longrightarrow> handleDimensionsResolved h' (Some h) = Some h"
  by (simp add: handleDimensionsResolved_def)

lemma handle_keeps_estimate:
  assumes "h \<noteq> 0" "\<not> isLoad ev" "estimatedPageHeight st = Some h"
  shows "estimatedPageHeight (handle ev st) = Some h"
proof (cases ev)
  case (Page j pev)
  then show ?thesis
    using assms
    by (cases pev)
      (simp_all add: pageEvent_def handleDimensionsResolved_keeps split: prod.splits option.splits)
qed (use assms in \<open>simp_all add: loadPdf_resolved_def loadPdf_rejected_def zoom_def
      handleKeyDown_def imgOnError_def\<close>)

lemma step_keeps_estimate:
  assumes "h \<noteq> 0" "\<not> isLoad ev" "estimatedPageHeight st = Some h"
  shows "estimatedPageHeight (step ev st) = Some h"
  using handle_keeps_estimate [OF assms] assms(2) by (simp add: step_same_file)

lemma run_keeps_estimate:
  "h \<noteq> 0 \<Longrightarrow> list_all (\<lambda>ev. \<not> isLoad ev) evs \<Longrightarrow> estimatedPageHeight st = Some h \<Longrightarrow>
   estimatedPageHeight (run evs st) = Some h"
proof (induction evs arbitrary: st)
  case Nil
  then show ?case by (simp add: run_def)
next
  case (Cons ev evs)
  have "run (ev # evs) st = run evs (step ev st)" by (simp add: run_def)
  then show ?case using Cons step_keeps_estimate [of h ev st] by simp
qed

lemma resume_resolved:
  "i < length (coroutines pg) \<Longrightarrow> stage (coroutines pg ! i) = AwaitGetPage \<Longrightarrow>
   snd (resume i (Resolved h ctx) pg) = Some h"
  by (simp add: resume_def)

lemma resume_rejected: "snd (resume i Rejected pg) = None"
  by (simp add: resume_def split: await.splits)

lemma pageEvent_estimate:
  "k < length (pages st) \<Longrightarrow>
   estimatedPageHeight (pageEvent k ev st) =
     (case snd (page_step ev (pages st ! k)) of
        None \<Rightarrow> estimatedPageHeight st
      | Some h \<Rightarrow> handleDimensionsResolved h (estimatedPageHeight st))"
  by (simp add: pageEvent_def split: prod.splits option.splits)

lemma step_estimate:
  "\<not> isLoad ev \<Longrightarrow> estimatedPageHeight (step ev st) = estimatedPageHeight (handle ev st)"
  by (simp add: step_same_file)

lemma first_call_sets_estimate:
  assumes "k < length (pages st)" "i < length (coroutines (pages st ! k))"
    "stage (coroutines (pages st ! k) ! i) = AwaitGetPage" "estimatedPageHeight st = None"
  shows "estimatedPageHeight (step (Page k (Resume i (Resolved h ctx))) st) = Some h"
  using assms
  by (simp add: step_estimate pageEvent_estimate resume_resolved handleDimensionsResolved_def)

lemma no_call_no_estimate:
  assumes "estimatedPageHeight st = None" "\<not> isLoad ev"
    "\<forall>k i h ctx. ev \<noteq> Page k (Resume i (Resolved h ctx))"
  shows "estimatedPageHeight (step ev st) = None"
proof -
  have "estimatedPageHeight (handle ev st) = None"
  proof (cases ev)
    case (Page k pev)
    show ?thesis
    proof (cases pev)
      case (Resume i oc)
      with Page assms(3) have "oc = Rejected" by (cases oc) auto
      with Page Resume assms(1) show ?thesis
        by (cases "k < length (pages st)")
          (simp_all add: pageEvent_estimate resume_rejected, simp add: pageEvent_def)
    qed (use Page assms(1) in \<open>simp_all add: pageEvent_def split: prod.splits\<close>)
  qed (use assms in \<open>simp_all add: loadPdf_resolved_def loadPdf_rejected_def zoom_def
        handleKeyDown_def imgOnError_def\<close>)
  then show ?thesis using assms(2) by (simp add: step_estimate)
qed

text \<open>
  Between two loads the estimate is assigned once. It stays unset until a coroutine of
  \<open>renderPage\<close> gets its page and calls \<open>onDimensionsResolved\<close>; that first call sets
  it to the height \<open>h\<close> of the page's viewport; and every later call and every other
  event leaves it at \<open>h\<close>. The height of a page is not \<open>0\<close>, the one number that
  \<open>prev ? prev : height\<close> would overwrite. The coroutine may belong to any page in the
  list, mounted or not.
\<close>

lemma estimate_assigned_once:
  assumes "h \<noteq> 0"
  shows "(\<forall>st k i ctx. k < length (pages st) \<and> i < length (coroutines (pages st ! k))
            \<and> stage (coroutines (pages st ! k) ! i) = AwaitGetPage
            \<and> estimatedPageHeight st = None
          \<longrightarrow> estimatedPageHeight (step (Page k (Resume i (Resolved h ctx))) st) = Some h)
    \<and> (\<forall>st ev. estimatedPageHeight st = None \<and> \<not> isLoad ev
            \<and> (\<forall>k i h' ctx. ev \<noteq> Page k (Resume i (Resolved h' ctx)))
          \<longrightarrow> estimatedPageHeight (step ev st) = None)
    \<and> (\<forall>st evs. estimatedPageHeight st = Some h \<and> list_all (\<lambda>ev. \<not> isLoad ev) evs
          \<longrightarrow> estimatedPageHeight (run evs st) = Some h)"
  using first_call_sets_estimate no_call_no_estimate run_keeps_estimate [OF assms]
  by blast

subsection \<open>The outcome of decoding\<close>

text \<open>
  C8, as amended. While a \<open>loadPdf\<close> is pending, a decoding failure puts the viewer into
  the error state whose kind is \<open>Password\<close> for \<open>PasswordException\<close>, \<open>Corrupt\<close> for
  \<open>InvalidPDFException\<close> and \<open>MissingPDFException\<close>, and \<open>Generic\<close> for every other
  name; a success while no error is set puts it into \<open>Ready\<close> with \<open>numPages\<close> the page
  count of the document.
\<close>

theorem decode_outcome:
  assumes "0 < pendingLoads st"
  shows "loadState (step (DecodeFail name) st) =
      Error (if name = ''PasswordException'' then Password
             else if name = ''InvalidPDFException'' \<or> name = ''MissingPDFException'' then Corrupt
             else Generic)
    \<and> (error st = None \<longrightarrow>
         loadState (step (DecodeOk d) st) = Ready \<and> numPages (step (DecodeOk d) st) = docNumPages d
         \<and> pdfDoc (step (DecodeOk d) st) = Some d)"
  using assms
  by (simp add: step_same_file loadState_def loadPdf_rejected_def loadPdf_resolved_def)

subsection \<open>A committed state is stable\<close>

lemma mounted_renderEffect [simp]:
  "mounted (rerunRenderEffect pg) = mounted pg"
  "pageNum (rerunRenderEffect pg) = pageNum pg"
  "p_pdfDoc (rerunRenderEffect pg) = p_pdfDoc pg"
  "p_scale (rerunRenderEffect pg) = p_scale pg"
  by (simp_all add: rerunRenderEffect_def renderEffect_def renderPage_def renderCleanup_def
      split: option.splits)

lemma rerender_props [simp]:
  "mounted (rerender d s pg) = mounted pg"
  "pageNum (rerender d s pg) = pageNum pg"
  by (simp_all add: rerender_def)

lemma rerender_rerender [simp]: "rerender d s (rerender d s pg) = rerender d s pg"
  by (simp add: rerender_def)

lemma rerender_mountPage [simp]: "rerender d s (mountPage n d s) = mountPage n d s"
  by (simp add: rerender_def mountPage_def)

lemma mountPage_props [simp]:
  "mounted (mountPage n d s)" "pageNum (mountPage n d s) = n"
  by (simp_all add: mountPage_def)

lemma unmount_props [simp]: "\<not> mounted (unmount pg)"
  by (simp add: unmount_def)

lemma wantedPages_reconcile [simp]: "wantedPages (reconcile st) = wantedPages st"
  by (simp add: wantedPages_def isPdf_def)

lemma pageEl_reconcile: "pageEl n (reconcile st) \<longleftrightarrow> n \<in> set (wantedPages st)"
proof
  assume "pageEl n (reconcile st)"
  then show "n \<in> set (wantedPages st)"
    by (auto simp: pageEl_def reconcile_def list_ex_iff split: if_splits)
next
  assume w: "n \<in> set (wantedPages st)"
  show "pageEl n (reconcile st)"
  proof (cases "pageEl n st")
    case True
    then obtain pg where "pg \<in> set (pages st)" "mounted pg" "pageNum pg = n"
      by (auto simp: pageEl_def list_ex_iff)
    with w have "rerender (pdfDoc st) (scale st) pg \<in> set (pages (reconcile st))"
      by (force simp: reconcile_def)
    moreover have "mounted (rerender (pdfDoc st) (scale st) pg)
        \<and> pageNum (rerender (pdfDoc st) (scale st) pg) = n"
      using \<open>mounted pg\<close> \<open>pageNum pg = n\<close> by simp
    ultimately show ?thesis
      unfolding pageEl_def list_ex_iff by blast
  next
    case False
    with w have "mountPage n (pdfDoc st) (scale st) \<in> set (pages (reconcile st))"
      by (simp add: reconcile_def)
    moreover have "mounted (mountPage n (pdfDoc st) (scale st))
        \<and> pageNum (mountPage n (pdfDoc st) (scale st)) = n"
      by simp
    ultimately show ?thesis
      unfolding pageEl_def list_ex_iff by blast
  qed
qed

lemma reconcile_reconcile [simp]: "reconcile (reconcile st) = reconcile st"
proof -
  let ?W = "wantedPages st"
  let ?F = "\<lambda>pg. if \<not> mounted pg then pg
                 else if pageNum pg \<in> set ?W then rerender (pdfDoc st) (scale st) pg
                 else unmount pg"
  have stable: "?F pg = pg" if "pg \<in> set (pages (reconcile st))" for pg
    using that by (auto simp: reconcile_def split: if_splits)
  have none: "filter (\<lambda>n. \<not> pageEl n (reconcile st)) ?W = []"
    by (simp add: pageEl_reconcile filter_empty_conv)
  have "map ?F (pages (reconcile st)) = pages (reconcile st)"
    using stable by (simp add: map_idI)
  moreover have "pages (reconcile (reconcile st)) =
      map ?F (pages (reconcile st))
      @ map (\<lambda>n. mountPage n (pdfDoc st) (scale st))
          (filter (\<lambda>n. \<not> pageEl n (reconcile st)) ?W)"
    by (subst reconcile_def) simp
  ultimately have "pages (reconcile (reconcile st)) = pages (reconcile st)"
    using none by simp
  moreover have "reconcile (reconcile st) = (reconcile st)\<lparr>pages := pages (reconcile (reconcile st))\<rparr>"
    by (subst reconcile_def) (simp add: reconcile_def)
  ultimately show ?thesis
    by simp
qed

subsection \<open>Parsing a reference\<close>

lemmas ref_defs = handleJumpToLocation_def matchHere_def letterCI_def isWhiteSpace_def
  isDigit_def parseInt_def digitsVal_def

lemma isDigit_not_other:
  "isDigit c \<Longrightarrow> \<not> isWhiteSpace c \<and> c \<noteq> CHR ''-'' \<and> c \<noteq> CHR ''+'' \<and> c \<noteq> CHR ''=''"
  by (auto simp: isDigit_def isWhiteSpace_def)

lemma parseInt_digits:
  assumes "ds \<noteq> []" "list_all isDigit ds"
  shows "parseInt ds = Some (int (digitsVal ds))"
proof -
  obtain c cs where ds: "ds = c # cs" using assms(1) by (cases ds) auto
  then have c: "isDigit c" using assms(2) by simp
  have tw: "takeWhile isDigit ds = ds"
    using assms(2) by (simp add: list_all_iff)
  have dw: "dropWhile isWhiteSpace ds = ds"
    using ds isDigit_not_other [OF c] by simp
  have neg: "(case ds of [] \<Rightarrow> False | c # cs \<Rightarrow> c = CHR ''-'') = False"
    using ds isDigit_not_other [OF c] by simp
  have unsigned: "(case ds of [] \<Rightarrow> ds
      | c # cs \<Rightarrow> if c = CHR ''-'' \<or> c = CHR ''+'' then cs else ds) = ds"
    using ds isDigit_not_other [OF c] by simp
  show ?thesis
    using assms(1) by (simp add: parseInt_def Let_def dw neg unsigned tw)
qed

lemma matchHere_digits: "matchHere s = Some ds \<Longrightarrow> ds \<noteq> [] \<and> list_all isDigit ds"
  by (auto simp: matchHere_def Let_def list_all_iff split: option.splits if_splits
      dest: set_takeWhileD)

lemma pageMatch_digits: "pageMatch r = Some ds \<Longrightarrow> ds \<noteq> [] \<and> list_all isDigit ds"
proof (induction r)
  case Nil
  then show ?case by simp
next
  case (Cons c cs)
  then show ?case
    using matchHere_digits [of "c # cs" ds] by (auto split: option.splits)
qed

subsection \<open>Where a jump leads\<close>

lemma locationTarget_scrolled [simp]:
  "locationTarget (st\<lparr>scrolled := z\<rparr>) = locationTarget st"
  by (simp add: locationTarget_def isPdf_def pageEl_def cong: option.case_cong if_cong)

lemma locationTarget_locationEffect [simp]:
  "locationTarget (locationEffect st) = locationTarget st"
  by (cases "locationTarget st") (simp_all add: locationEffect_def)

lemma locationTarget_runLocationEffect [simp]:
  "locationTarget (runLocationEffect old st) = locationTarget st"
  by (simp add: runLocationEffect_def)

lemma wantedPages_scrolled [simp]: "wantedPages (st\<lparr>scrolled := z\<rparr>) = wantedPages st"
  by (simp add: wantedPages_def isPdf_def)

lemma pageEl_scrolled [simp]: "pageEl n (st\<lparr>scrolled := z\<rparr>) = pageEl n st"
  by (simp add: pageEl_def)

lemma reconcile_scrolled: "reconcile (st\<lparr>scrolled := z\<rparr>) = (reconcile st)\<lparr>scrolled := z\<rparr>"
  unfolding reconcile_def by simp

lemma reconcile_locationEffect:
  assumes "reconcile st = st"
  shows "reconcile (locationEffect st) = locationEffect st"
proof (cases "locationTarget st")
  case None
  then show ?thesis using assms by (simp add: locationEffect_def)
next
  case (Some n)
  then have "locationEffect st = st\<lparr>scrolled := scrolled st @ [n]\<rparr>"
    by (simp add: locationEffect_def)
  then show ?thesis by (simp only: reconcile_scrolled assms)
qed

lemma reconcile_runLocationEffect:
  assumes "reconcile st = st"
  shows "reconcile (runLocationEffect old st) = runLocationEffect old st"
proof (cases "location old = location st \<and> numPages old = numPages st \<and> isPdf old = isPdf st")
  case True
  then have "runLocationEffect old st = st" by (simp add: runLocationEffect_def)
  then show ?thesis using assms by simp
next
  case False
  then have "runLocationEffect old st = locationEffect st"
    by (auto simp: runLocationEffect_def)
  then show ?thesis using reconcile_locationEffect [OF assms] by simp
qed

lemma step_Jump:
  "step (Jump r) st =
     runLocationEffect st (reconcile (st\<lparr>location := Some (handleJumpToLocation r)\<rparr>))"
  by (simp add: step_same_file)

lemma jump_target:
  "locationTarget (step (Jump r) st) =
     (if error st = None \<and> isPdf st \<and> pdfDoc st \<noteq> None then
        (case parseInt (handleJumpToLocation r) of
           None \<Rightarrow> None
         | Some t \<Rightarrow> if 0 < t \<and> t \<le> int (numPages st) then Some (nat t) else None)
      else None)"
proof -
  let ?l = "handleJumpToLocation r"
  let ?X = "reconcile (st\<lparr>location := Some ?l\<rparr>)"
  have el: "pageEl n ?X \<longleftrightarrow>
      error st = None \<and> isPdf st \<and> pdfDoc st \<noteq> None \<and> 1 \<le> n \<and> n \<le> numPages st" for n
    by (auto simp: pageEl_reconcile wantedPages_def isPdf_def)
  have empty: "parseInt [] = None" by (simp add: parseInt_def)
  have "locationTarget (step (Jump r) st) = locationTarget ?X"
    by (simp add: step_Jump)
  also have "\<dots> =
     (if error st = None \<and> isPdf st \<and> pdfDoc st \<noteq> None then
        (case parseInt ?l of
           None \<Rightarrow> None
         | Some t \<Rightarrow> if 0 < t \<and> t \<le> int (numPages st) then Some (nat t) else None)
      else None)"
    using empty by (cases "?l = []") (auto simp: locationTarget_def el isPdf_def split: option.splits)
  finally show ?thesis .
qed

lemma jump_scrolled:
  "scrolled (step (Jump r) st) =
     (if location st = Some (handleJumpToLocation r) then scrolled st
      else case locationTarget (step (Jump r) st) of
             None \<Rightarrow> scrolled st
           | Some n \<Rightarrow> scrolled st @ [n])"
proof -
  let ?l = "handleJumpToLocation r"
  let ?X = "reconcile (st\<lparr>location := Some ?l\<rparr>)"
  have tx: "locationTarget (step (Jump r) st) = locationTarget ?X"
    by (simp add: step_Jump)
  have sx: "scrolled ?X = scrolled st" by simp
  show "scrolled (step (Jump r) st) =
         (if location st = Some ?l then scrolled st
          else case locationTarget (step (Jump r) st) of
                 None \<Rightarrow> scrolled st
               | Some n \<Rightarrow> scrolled st @ [n])"
  proof (cases "location st = Some ?l")
    case True
    then have "runLocationEffect st ?X = ?X"
      by (simp add: runLocationEffect_def isPdf_def)
    then show ?thesis using True sx by (simp add: step_Jump)
  next
    case False
    then have "runLocationEffect st ?X = locationEffect ?X"
      by (simp add: runLocationEffect_def)
    then have "scrolled (step (Jump r) st) = scrolled (locationEffect ?X)"
      by (simp add: step_Jump)
    also have "\<dots> = (case locationTarget ?X of
                 None \<Rightarrow> scrolled st
               | Some n \<Rightarrow> scrolled st @ [n])"
      by (cases "locationTarget ?X") (simp_all add: locationEffect_def)
    finally show ?thesis using False tx by simp
  qed
qed

lemma step_Jump_fields [simp]:
  "error (step (Jump r) st) = error st"
  "mimeType (step (Jump r) st) = mimeType st"
  "pdfDoc (step (Jump r) st) = pdfDoc st"
  "numPages (step (Jump r) st) = numPages st"
  "location (step (Jump r) st) = Some (handleJumpToLocation r)"
  by (simp_all add: step_Jump)

lemma isPdf_step_Jump [simp]: "isPdf (step (Jump r) st) = isPdf st"
  by (simp add: isPdf_def)

lemma jump_scrolls:
  assumes "location st \<noteq> Some (handleJumpToLocation r)"
  shows "scrolled (step (Jump r) st) =
     (case locationTarget (step (Jump r) st) of
        None \<Rightarrow> scrolled st
      | Some n \<Rightarrow> scrolled st @ [n])"
  using assms by (simp add: jump_scrolled)

lemma jump_again:
  assumes "error st = None" "isPdf st" "pdfDoc st \<noteq> None"
    and "location st \<noteq> Some (handleJumpToLocation r)"
    and "handleJumpToLocation r' \<noteq> handleJumpToLocation r"
    and "locationTarget (step (Jump r) st) = Some n"
  shows "scrolled (step (Jump r) st) = scrolled st @ [n]
    \<and> scrolled (step (Jump r) (step (Jump r') (step (Jump r) st)))
        = scrolled (step (Jump r') (step (Jump r) st)) @ [n]"
proof -
  let ?s2 = "step (Jump r') (step (Jump r) st)"
  have first: "scrolled (step (Jump r) st) = scrolled st @ [n]"
    using jump_scrolls [OF assms(4)] assms(6) by simp
  have loc: "location ?s2 \<noteq> Some (handleJumpToLocation r)"
    using assms(5) by simp
  have "locationTarget (step (Jump r) ?s2) = locationTarget (step (Jump r) st)"
    using assms(1-3) by (simp add: jump_target cong: option.case_cong)
  then have "locationTarget (step (Jump r) ?s2) = Some n"
    using assms(6) by simp
  then have "scrolled (step (Jump r) ?s2) = scrolled ?s2 @ [n]"
    using jump_scrolls [OF loc] by simp
  then show ?thesis using first by simp
qed

lemma jump_twice:
  "step (Jump r) (step (Jump r) st) = step (Jump r) st"
proof -
  let ?l = "handleJumpToLocation r"
  let ?s1 = "step (Jump r) st"
  have s1: "?s1 = runLocationEffect st (reconcile (st\<lparr>location := Some ?l\<rparr>))"
    by (rule step_Jump)
  have loc: "location ?s1 = Some ?l" by simp
  have stable: "reconcile ?s1 = ?s1"
    unfolding s1 by (rule reconcile_runLocationEffect) simp
  have same: "?s1\<lparr>location := Some ?l\<rparr> = ?s1" using loc by simp
  have "step (Jump r) ?s1 = runLocationEffect ?s1 (reconcile (?s1\<lparr>location := Some ?l\<rparr>))"
    by (rule step_Jump)
  also have "\<dots> = runLocationEffect ?s1 ?s1" by (simp only: same stable)
  also have "\<dots> = ?s1" by (simp add: runLocationEffect_def)
  finally show ?thesis .
qed

text \<open>
  C7, as amended. The page a reference resolves to depends on the reference and the page
  count only: two viewers showing a PDF with the same number of pages resolve it to the
  same page, whatever was scrolled, rendered or jumped to before. A jump that changes the
  location calls \<open>scrollIntoView\<close> on that page; the same reference, jumped to again
  after another one, scrolls to the same page again; \<open>page=3\<close> on three pages or more
  scrolls to page 3. A jump that repeats the current location leaves the state as it is:
  React runs the location effect when a dependency has changed.
\<close>

theorem jump_same_target:
  "(error st = None \<and> isPdf st \<and> pdfDoc st \<noteq> None
      \<and> error st' = None \<and> isPdf st' \<and> pdfDoc st' \<noteq> None \<and> numPages st' = numPages st
      \<longrightarrow> locationTarget (step (Jump r) st') = locationTarget (step (Jump r) st))
   \<and> (location st \<noteq> Some (handleJumpToLocation r)
      \<longrightarrow> scrolled (step (Jump r) st) =
            (case locationTarget (step (Jump r) st) of
               None \<Rightarrow> scrolled st
             | Some n \<Rightarrow> scrolled st @ [n]))
   \<and> (error st = None \<and> isPdf st \<and> pdfDoc st \<noteq> None
      \<and> location st \<noteq> Some (handleJumpToLocation r)
      \<and> handleJumpToLocation r' \<noteq> handleJumpToLocation r
      \<and> locationTarget (step (Jump r) st) = Some n
      \<longrightarrow> scrolled (step (Jump r) st) = scrolled st @ [n]
        \<and> scrolled (step (Jump r) (step (Jump r') (step (Jump r) st)))
            = scrolled (step (Jump r') (step (Jump r) st)) @ [n])
   \<and> (error st = None \<and> isPdf st \<and> pdfDoc st \<noteq> None \<and> 3 \<le> numPages st
      \<and> location st \<noteq> Some ''3''
      \<longrightarrow> scrolled (step (Jump ''page=3'') st) = scrolled st @ [3])
   \<and> step (Jump r) (step (Jump r) st) = step (Jump r) st"
proof -
  have indep: "locationTarget (step (Jump r) st') = locationTarget (step (Jump r) st)"
    if "error st = None \<and> isPdf st \<and> pdfDoc st \<noteq> None
      \<and> error st' = None \<and> isPdf st' \<and> pdfDoc st' \<noteq> None \<and> numPages st' = numPages st"
  proof -
    have "numPages st' = numPages st" using that by simp
    then show ?thesis using that by (simp add: jump_target cong: option.case_cong)
  qed
  have p3: "handleJumpToLocation ''page=3'' = ''3''" by (simp add: ref_defs)
  have v3: "parseInt ''3'' = Some 3" by (simp add: ref_defs)
  have third: "scrolled (step (Jump ''page=3'') st) = scrolled st @ [3]"
    if "error st = None \<and> isPdf st \<and> pdfDoc st \<noteq> None \<and> 3 \<le> numPages st
      \<and> location st \<noteq> Some ''3''"
  proof -
    have "locationTarget (step (Jump ''page=3'') st) = Some 3"
      using that by (simp add: jump_target p3 v3)
    then show ?thesis
      using that jump_scrolls [of st "''page=3''"] by (simp add: p3)
  qed
  show ?thesis
    using indep jump_scrolls [of st r] jump_again [of st r r' n] third jump_twice [of r st]
    by blast
qed

text \<open>
  C6, as amended. In a viewer that shows a PDF: when the pattern finds digits, the jump
  resolves to the page of that number if it lies in \<open>[1, numPages]\<close> and to no page
  otherwise; when the pattern finds nothing, the reference without its first \<open>#\<close> goes
  to the viewer, whose \<open>parseInt\<close> reads a leading integer from it, and the jump resolves
  to that page if it lies in \<open>[1, numPages]\<close> and to no page otherwise. When the jump has
  changed the location, \<open>scrollIntoView\<close> is called on the page it resolves to, and on no
  page if it resolves to none; when it has not, no page is scrolled to. No error is
  raised.
\<close>

theorem jump_resolution:
  assumes "error st = None" "isPdf st" "pdfDoc st \<noteq> None"
  shows "(\<forall>ds. pageMatch r = Some ds \<longrightarrow>
            locationTarget (step (Jump r) st) =
              (if 1 \<le> digitsVal ds \<and> digitsVal ds \<le> numPages st then Some (digitsVal ds) else None))
    \<and> (pageMatch r = None \<longrightarrow>
            locationTarget (step (Jump r) st) =
              (case parseInt (remove1 (CHR ''#'') r) of
                 None \<Rightarrow> None
               | Some t \<Rightarrow> if 1 \<le> t \<and> t \<le> int (numPages st) then Some (nat t) else None))
    \<and> scrolled (step (Jump r) st) =
         (if location st = Some (handleJumpToLocation r) then scrolled st
          else case locationTarget (step (Jump r) st) of
                 None \<Rightarrow> scrolled st
               | Some n \<Rightarrow> scrolled st @ [n])
    \<and> error (step (Jump r) st) = None"
proof -
  let ?l = "handleJumpToLocation r"
  have found: "locationTarget (step (Jump r) st) =
      (if 1 \<le> digitsVal ds \<and> digitsVal ds \<le> numPages st then Some (digitsVal ds) else None)"
    if "pageMatch r = Some ds" for ds
  proof -
    have "?l = ds" using that by (simp add: handleJumpToLocation_def)
    moreover have "parseInt ds = Some (int (digitsVal ds))"
      using pageMatch_digits [OF that] by (simp add: parseInt_digits)
    ultimately show ?thesis using assms by (auto simp: jump_target)
  qed
  have anchor: "locationTarget (step (Jump r) st) =
      (case parseInt (remove1 (CHR ''#'') r) of
         None \<Rightarrow> None
       | Some t \<Rightarrow> if 1 \<le> t \<and> t \<le> int (numPages st) then Some (nat t) else None)"
    if "pageMatch r = None"
    using that assms by (auto simp: jump_target handleJumpToLocation_def split: option.splits)
  have log: "scrolled (step (Jump r) st) =
         (if location st = Some ?l then scrolled st
          else case locationTarget (step (Jump r) st) of
                 None \<Rightarrow> scrolled st
               | Some n \<Rightarrow> scrolled st @ [n])"
    by (rule jump_scrolled)
  have err: "error (step (Jump r) st) = None"
    using assms by (simp add: step_Jump)
  show ?thesis using found anchor log err by blast
qed

subsection \<open>A sequence of zoom steps\<close>

lemma step_zoom:
  assumes "error st = None" "isPdf st" "ev = ZoomIn \<or> ev = ZoomOut"
  shows "scale (step ev st) = zoomScale (scale st) (zoomDelta ev)
    \<and> error (step ev st) = None \<and> isPdf (step ev st)"
  using assms by (auto simp: step_same_file zoom_def isPdf_def)

lemma run_zoom:
  "error st = None \<Longrightarrow> isPdf st \<Longrightarrow> list_all (\<lambda>ev. ev = ZoomIn \<or> ev = ZoomOut) evs \<Longrightarrow>
   scale (run evs st) = foldl zoomScale (scale st) (map zoomDelta evs)"
proof (induction evs arbitrary: st)
  case Nil
  then show ?case by (simp add: run_def)
next
  case (Cons ev evs)
  have r: "run (ev # evs) st = run evs (step ev st)" by (simp add: run_def)
  have s: "scale (step ev st) = zoomScale (scale st) (zoomDelta ev)
    \<and> error (step ev st) = None \<and> isPdf (step ev st)"
    using Cons.prems by (intro step_zoom) simp_all
  show ?case
    unfolding r using Cons.IH [of "step ev st"] s Cons.prems by simp
qed

lemma replicate_5: "replicate 5 x = [x, x, x, x, x]"
  by (simp add: numeral_eq_Suc)

lemma replicate_8: "replicate 8 x = [x, x, x, x, x, x, x, x]"
  by (simp add: numeral_eq_Suc)

lemma zoom_in_five:
  "foldl zoomScale (fl (9 / 10)) (replicate 5 (fl (1 / 10))) = 788129934789837 / 562949953421312"
  by (simp add: replicate_5 zoomScale_def fl_eval)

lemma zoom_out_eight:
  "foldl zoomScale (788129934789837 / 562949953421312) (replicate 8 (- fl (1 / 10)))
     = 1351079888211149 / 2251799813685248"
  by (simp add: replicate_8 zoomScale_def fl_eval)

lemma zoom_five_eight:
  "foldl zoomScale (fl (9 / 10)) (replicate 5 (fl (1 / 10)) @ replicate 8 (- fl (1 / 10)))
     = 1351079888211149 / 2251799813685248"
  by (simp only: foldl_append zoom_in_five zoom_out_eight)

lemmas page_defs = page_run_def mountPage_def observerCallback_def rerunRenderEffect_def
  renderEffect_def renderPage_def renderCleanup_def rerender_def resume_def setAt_def
  taskDone_def taskFail_def unmount_def cancel_def

lemmas viewer_defs = run_def step_def commit_def runLoadEffect_def runLocationEffect_def
  locationEffect_def locationTarget_def reconcile_def wantedPages_def pageEl_def
  mountViewer_def initViewer_def loadEffect_def loadPdf_resolved_def loadPdf_rejected_def
  isPdf_def pageEvent_def imgOnError_def zoom_def handleKeyDown_def
  handleDimensionsResolved_def render_def

lemmas run_eval = loaded_def viewer_defs page_defs upt_conv_Cons

lemma loaded_fields:
  "error (loaded 2) = None" "isPdf (loaded 2)" "scale (loaded 2) = fl (9 / 10)" "pdfDoc (loaded 2) \<noteq> None"
  "numPages (loaded 2) = 2"
  by (simp_all add: loaded_def viewer_defs)

lemma zoom_events:
  "list_all (\<lambda>ev. ev = ZoomIn \<or> ev = ZoomOut) (replicate 5 ZoomIn @ replicate 8 ZoomOut)"
  by (simp add: list_all_iff)

lemma final_scale:
  "scale (run (replicate 5 ZoomIn @ replicate 8 ZoomOut) (loaded 2))
     = 1351079888211149 / 2251799813685248"
  using run_zoom [OF loaded_fields(1) loaded_fields(2) zoom_events]
  by (simp add: loaded_fields zoom_in_five zoom_out_eight)

text \<open>
  C9 fails as stated. After five \<open>zoom(0.1)\<close> and eight \<open>zoom(-0.1)\<close> from the default
  scale the scale is not \<open>max(0.5, initial + 5*0.1 - 8*0.1)\<close>, whether the right-hand
  side is computed exactly from the binary64 values, in binary64 arithmetic from the left,
  or from the decimal numbers: every sum of \<open>zoom\<close> is rounded.
\<close>

theorem zoom_sequence_exact_counterexample:
  "scale (run (replicate 5 ZoomIn @ replicate 8 ZoomOut) (loaded 2))
     \<noteq> max (1 / 2) (scale (loaded 2) + 5 * fl (1 / 10) - 8 * fl (1 / 10))
   \<and> scale (run (replicate 5 ZoomIn @ replicate 8 ZoomOut) (loaded 2))
     \<noteq> max (1 / 2) (fl (fl (scale (loaded 2) + fl (5 * fl (1 / 10))) - fl (8 * fl (1 / 10))))
   \<and> scale (run (replicate 5 ZoomIn @ replicate 8 ZoomOut) (loaded 2))
     \<noteq> max (1 / 2) (9 / 10 + 5 * (1 / 10) - 8 * (1 / 10))"
  by (simp add: final_scale loaded_fields fl_eval)

text \<open>
  C9, as amended. From the default scale, five \<open>zoom(0.1)\<close> and eight \<open>zoom(-0.1)\<close>
  give the binary64 value \<open>0.6000000000000001\<close>, which is within \<open>2^-53\<close> of
  \<open>max(0.5, 0.9 + 5*0.1 - 8*0.1) = 0.6\<close>.
\<close>

theorem zoom_sequence_rounded:
  "error st = None \<Longrightarrow> isPdf st \<Longrightarrow> scale st = fl (9 / 10) \<Longrightarrow>
   scale (run (replicate 5 ZoomIn @ replicate 8 ZoomOut) st) = 1351079888211149 / 2251799813685248
   \<and> \<bar>scale (run (replicate 5 ZoomIn @ replicate 8 ZoomOut) st)
        - max (1 / 2) (9 / 10 + 5 * (1 / 10) - 8 * (1 / 10))\<bar> \<le> 1 / 2 ^ 53"
proof -
  assume a: "error st = None" "isPdf st" "scale st = fl (9 / 10)"
  have "scale (run (replicate 5 ZoomIn @ replicate 8 ZoomOut) st)
     = 1351079888211149 / 2251799813685248"
    using run_zoom [OF a(1) a(2) zoom_events] by (simp add: a(3) zoom_in_five zoom_out_eight)
  then show ?thesis by simp
qed

subsection \<open>Concrete jumps\<close>

lemma loaded_3_fields:
  "error (loaded 3) = None" "isPdf (loaded 3)" "pdfDoc (loaded 3) \<noteq> None"
  "numPages (loaded 3) = 3" "location (loaded 3) = None" "scrolled (loaded 3) = []"
  by (simp_all add: loaded_def viewer_defs page_defs)

text \<open>
  C6 fails as stated, twice. The reference \<open>#2\<close> holds no page number for the pattern,
  so it is an anchor, and the claim has an anchor do nothing; in a viewer showing a PDF of
  three pages the jump scrolls to page 2. And \<open>Page 2\<close> right after it holds a page
  number in range, yet no page is scrolled to: the location is \<open>2\<close> as before.
\<close>

theorem anchor_scrolls_counterexample:
  "pageMatch ''#2'' = None \<and> scrolled (loaded 3) = []
   \<and> scrolled (step (Jump ''#2'') (loaded 3)) = [2]
   \<and> pageMatch ''Page 2'' = Some ''2''
   \<and> scrolled (step (Jump ''Page 2'') (step (Jump ''#2'') (loaded 3))) = [2]"
proof -
  have m: "pageMatch ''#2'' = None" by (simp add: ref_defs)
  have m2: "pageMatch ''Page 2'' = Some ''2''" by (simp add: ref_defs)
  have h: "handleJumpToLocation ''#2'' = ''2''" by (simp add: ref_defs)
  have h2: "handleJumpToLocation ''Page 2'' = ''2''" by (simp add: ref_defs)
  have p: "parseInt ''2'' = Some 2" by (simp add: ref_defs)
  have t: "locationTarget (step (Jump ''#2'') (loaded 3)) = Some 2"
    by (simp add: jump_target loaded_3_fields h p)
  have one: "scrolled (step (Jump ''#2'') (loaded 3)) = [2]"
    by (simp add: jump_scrolled [of "''#2''" "loaded 3"] t loaded_3_fields)
  have two: "scrolled (step (Jump ''Page 2'') (step (Jump ''#2'') (loaded 3))) = [2]"
    by (simp add: jump_scrolled [of "''Page 2''" "step (Jump ''#2'') (loaded 3)"] h h2 one)
  show ?thesis using m m2 one two loaded_3_fields(6) by simp
qed

text \<open>Witness for C6, as amended: \<open>Page 3\<close> and \<open>#section=5\<close> on three pages.\<close>

theorem jump_resolution_witness:
  "error (loaded 3) = None \<and> isPdf (loaded 3) \<and> pdfDoc (loaded 3) \<noteq> None
   \<and> pageMatch ''Page 3'' = Some ''3''
   \<and> locationTarget (step (Jump ''Page 3'') (loaded 3)) = Some 3
   \<and> pageMatch ''#section=5'' = None
   \<and> locationTarget (step (Jump ''#section=5'') (loaded 3)) = None
   \<and> scrolled (step (Jump ''Page 3'') (loaded 3)) = [3]
   \<and> error (step (Jump ''Page 3'') (loaded 3)) = None"
proof -
  have m: "pageMatch ''Page 3'' = Some ''3''" by (simp add: ref_defs)
  have a: "pageMatch ''#section=5'' = None" by (simp add: ref_defs)
  have h: "handleJumpToLocation ''Page 3'' = ''3''" by (simp add: ref_defs)
  have v: "digitsVal ''3'' = 3" by (simp add: ref_defs)
  have p: "parseInt ''section=5'' = None" by (simp add: ref_defs)
  note r1 = jump_resolution [OF loaded_3_fields(1) loaded_3_fields(2) loaded_3_fields(3), of "''Page 3''"]
  note r2 = jump_resolution [OF loaded_3_fields(1) loaded_3_fields(2) loaded_3_fields(3), of "''#section=5''"]
  have t3: "locationTarget (step (Jump ''Page 3'') (loaded 3)) = Some 3"
    using r1 m by (simp add: v loaded_3_fields)
  have t5: "locationTarget (step (Jump ''#section=5'') (loaded 3)) = None"
    using r2 a by (simp add: p)
  have s3: "scrolled (step (Jump ''Page 3'') (loaded 3)) = [3]"
    using r1 by (simp add: t3 h loaded_3_fields)
  have e3: "error (step (Jump ''Page 3'') (loaded 3)) = None"
    using r1 by simp
  show ?thesis using loaded_3_fields m a t3 t5 s3 e3 by simp
qed

text \<open>
  C7 fails as stated. Two jumps with \<open>page=3\<close> on three pages scroll once: the second
  jump calls \<open>scrollIntoView\<close> on no page.
\<close>

theorem repeated_jump_counterexample:
  "scrolled (loaded 3) = []
   \<and> scrolled (step (Jump ''page=3'') (loaded 3)) = [3]
   \<and> scrolled (step (Jump ''page=3'') (step (Jump ''page=3'') (loaded 3))) = [3]"
proof -
  have p3: "handleJumpToLocation ''page=3'' = ''3''" by (simp add: ref_defs)
  have v3: "parseInt ''3'' = Some 3" by (simp add: ref_defs)
  have t: "locationTarget (step (Jump ''page=3'') (loaded 3)) = Some 3"
    by (simp add: jump_target loaded_3_fields p3 v3)
  have one: "scrolled (step (Jump ''page=3'') (loaded 3)) = [3]"
    by (simp add: jump_scrolled [of "''page=3''" "loaded 3"] t loaded_3_fields)
  show ?thesis
    using one loaded_3_fields(6) by (simp add: jump_twice)
qed

text \<open>
  Witness for C7, as amended: \<open>page=3\<close> on three pages, in two viewers, and again after
  \<open>Page 1\<close>.
\<close>

theorem jump_same_target_witness:
  "error (loaded 3) = None \<and> isPdf (loaded 3) \<and> pdfDoc (loaded 3) \<noteq> None
   \<and> error (step ZoomIn (loaded 3)) = None \<and> isPdf (step ZoomIn (loaded 3))
   \<and> pdfDoc (step ZoomIn (loaded 3)) \<noteq> None
   \<and> numPages (step ZoomIn (loaded 3)) = numPages (loaded 3)
   \<and> locationTarget (step (Jump ''page=3'') (step ZoomIn (loaded 3)))
       = locationTarget (step (Jump ''page=3'') (loaded 3))
   \<and> location (loaded 3) \<noteq> Some (handleJumpToLocation ''page=3'')
   \<and> handleJumpToLocation ''Page 1'' \<noteq> handleJumpToLocation ''page=3''
   \<and> locationTarget (step (Jump ''page=3'') (loaded 3)) = Some 3
   \<and> scrolled (step (Jump ''page=3'') (loaded 3)) = scrolled (loaded 3) @ [3]
   \<and> scrolled (step (Jump ''page=3'') (step (Jump ''Page 1'') (step (Jump ''page=3'') (loaded 3))))
       = scrolled (step (Jump ''Page 1'') (step (Jump ''page=3'') (loaded 3))) @ [3]
   \<and> 3 \<le> numPages (loaded 3) \<and> location (loaded 3) \<noteq> Some ''3''
   \<and> step (Jump ''page=3'') (step (Jump ''page=3'') (loaded 3)) = step (Jump ''page=3'') (loaded 3)"
proof -
  let ?st' = "step ZoomIn (loaded 3)"
  have z: "step ZoomIn (loaded 3) = runLocationEffect (loaded 3) (reconcile (handle ZoomIn (loaded 3)))"
    by (simp add: step_same_file)
  have f: "error ?st' = None" "isPdf ?st'" "pdfDoc ?st' \<noteq> None" "numPages ?st' = numPages (loaded 3)"
    unfolding z using loaded_3_fields by (simp_all add: isPdf_def zoom_def)
  have p3: "handleJumpToLocation ''page=3'' = ''3''" by (simp add: ref_defs)
  have p1: "handleJumpToLocation ''Page 1'' = ''1''" by (simp add: ref_defs)
  have v3: "parseInt ''3'' = Some 3" by (simp add: ref_defs)
  have t: "locationTarget (step (Jump ''page=3'') (loaded 3)) = Some 3"
    by (simp add: jump_target loaded_3_fields p3 v3)
  have l: "location (loaded 3) \<noteq> Some (handleJumpToLocation ''page=3'')"
    by (simp add: loaded_3_fields)
  have d: "handleJumpToLocation ''Page 1'' \<noteq> handleJumpToLocation ''page=3''"
    by (simp add: p1 p3)
  note th = jump_same_target [of "loaded 3" ?st' "''page=3''" "''Page 1''" 3]
  have c1: "locationTarget (step (Jump ''page=3'') ?st') = locationTarget (step (Jump ''page=3'') (loaded 3))"
    using th f loaded_3_fields by blast
  have c3: "scrolled (step (Jump ''page=3'') (loaded 3)) = scrolled (loaded 3) @ [3]
     \<and> scrolled (step (Jump ''page=3'') (step (Jump ''Page 1'') (step (Jump ''page=3'') (loaded 3))))
       = scrolled (step (Jump ''Page 1'') (step (Jump ''page=3'') (loaded 3))) @ [3]"
    using th loaded_3_fields l d t by blast
  have c5: "step (Jump ''page=3'') (step (Jump ''page=3'') (loaded 3)) = step (Jump ''page=3'') (loaded 3)"
    using th by blast
  show ?thesis
    using loaded_3_fields f c1 l d t c3 c5 by simp
qed

subsection \<open>Concrete runs\<close>

lemma viewing_fields:
  "0 < length (pages (run [Page 0 (Observe True)] (loaded 2)))"
  "isVisible (pages (run [Page 0 (Observe True)] (loaded 2)) ! 0)"
  by (simp_all add: loaded_def viewer_defs page_defs upt_conv_Cons)

text \<open>Witness for C5: page 1 of a loaded PDF is revealed, then scrolled away, zoomed, and another file is loaded.\<close>

theorem visibility_monotonic_witness:
  "0 < length (pages (run [Page 0 (Observe True)] (loaded 2)))
   \<and> isVisible (pages (run [Page 0 (Observe True)] (loaded 2)) ! 0)
   \<and> 0 < length (pages (run [Page 0 (Observe False), ZoomIn,
          SetFile ''JVBERi0xLjcK'' ''application/pdf'']
          (run [Page 0 (Observe True)] (loaded 2))))
   \<and> isVisible (pages (run [Page 0 (Observe False), ZoomIn,
          SetFile ''JVBERi0xLjcK'' ''application/pdf'']
          (run [Page 0 (Observe True)] (loaded 2))) ! 0)"
  using visibility_monotonic [OF viewing_fields, of "[Page 0 (Observe False), ZoomIn,
          SetFile ''JVBERi0xLjcK'' ''application/pdf'']"] viewing_fields
  by simp

lemma revealed_fields:
  "0 < length (pages (run [Page 0 (Observe True)] (loaded 2)))"
  "0 < length (coroutines (pages (run [Page 0 (Observe True)] (loaded 2)) ! 0))"
  "stage (coroutines (pages (run [Page 0 (Observe True)] (loaded 2)) ! 0) ! 0) = AwaitGetPage"
  "estimatedPageHeight (run [Page 0 (Observe True)] (loaded 2)) = None"
  by (simp_all add: run_eval)

text \<open>
  An instance: page 1 is revealed; a zoom leaves the estimate unset; the page resolves to a
  height of 792; page 2 resolves to 880 after a zoom, and the estimate is 792.
\<close>

lemma estimate_assigned_once_example:
  "(792 :: rat) \<noteq> 0
   \<and> 0 < length (pages (run [Page 0 (Observe True)] (loaded 2)))
   \<and> 0 < length (coroutines (pages (run [Page 0 (Observe True)] (loaded 2)) ! 0))
   \<and> stage (coroutines (pages (run [Page 0 (Observe True)] (loaded 2)) ! 0) ! 0) = AwaitGetPage
   \<and> estimatedPageHeight (run [Page 0 (Observe True)] (loaded 2)) = None
   \<and> estimatedPageHeight (step (Page 0 (Resume 0 (Resolved 792 True)))
        (run [Page 0 (Observe True)] (loaded 2))) = Some 792
   \<and> \<not> isLoad ZoomIn
   \<and> estimatedPageHeight (step ZoomIn (run [Page 0 (Observe True)] (loaded 2))) = None
   \<and> list_all (\<lambda>ev. \<not> isLoad ev)
        [ZoomIn, Page 1 (Observe True), Page 1 (Resume 0 (Resolved 880 True))]
   \<and> estimatedPageHeight
        (run [ZoomIn, Page 1 (Observe True), Page 1 (Resume 0 (Resolved 880 True))]
          (step (Page 0 (Resume 0 (Resolved 792 True)))
            (run [Page 0 (Observe True)] (loaded 2))))
       = Some 792"
proof -
  let ?st = "run [Page 0 (Observe True)] (loaded 2)"
  have n: "(792 :: rat) \<noteq> 0" by simp
  have l: "list_all (\<lambda>ev. \<not> isLoad ev)
      [ZoomIn, Page 1 (Observe True), Page 1 (Resume 0 (Resolved 880 True))]" by simp
  have z: "\<forall>k i h' ctx. ZoomIn \<noteq> Page k (Resume i (Resolved h' ctx))" by simp
  from estimate_assigned_once [OF n]
  have a: "\<And>st k i ctx. k < length (pages st) \<Longrightarrow> i < length (coroutines (pages st ! k))
            \<Longrightarrow> stage (coroutines (pages st ! k) ! i) = AwaitGetPage
            \<Longrightarrow> estimatedPageHeight st = None
            \<Longrightarrow> estimatedPageHeight (step (Page k (Resume i (Resolved 792 ctx))) st) = Some 792"
    and b: "\<And>st ev. estimatedPageHeight st = None \<Longrightarrow> \<not> isLoad ev
            \<Longrightarrow> \<forall>k i h' ctx. ev \<noteq> Page k (Resume i (Resolved h' ctx))
            \<Longrightarrow> estimatedPageHeight (step ev st) = None"
    and c: "\<And>st evs. estimatedPageHeight st = Some 792 \<Longrightarrow> list_all (\<lambda>ev. \<not> isLoad ev) evs
            \<Longrightarrow> estimatedPageHeight (run evs st) = Some 792"
    by blast+
  have first: "estimatedPageHeight (step (Page 0 (Resume 0 (Resolved 792 True))) ?st) = Some 792"
    by (rule a [OF revealed_fields])
  have before: "estimatedPageHeight (step ZoomIn ?st) = None"
    by (rule b [OF revealed_fields(4) _ z]) simp
  show ?thesis
    using n l revealed_fields first before c [OF first l] by simp
qed

text \<open>
  C4. The estimate of a document can come from a page of the document before it. A page
  of the first document is revealed and waits for \<open>getPage\<close>; a second file is loaded,
  which clears the estimate and unmounts the page, and is decoded; the old page's
  \<open>getPage\<close> resolves and its coroutine calls \<open>onDimensionsResolved\<close> with 555, before
  it finds \<open>canvasRef\<close> empty and returns; then page 1 of the second document resolves
  to 800. The estimate of the second document is 555.
\<close>

theorem stale_page_sets_estimate:
  "pdfDoc (run [Page 0 (Observe True), SetFile ''JVBERi0xLjcK'' ''application/pdf'',
        DecodeOk \<lparr>docId = 1, docNumPages = 2\<rparr>, Page 0 (Resume 0 (Resolved 555 True)),
        Page 2 (Observe True), Page 2 (Resume 0 (Resolved 800 True))] (loaded 2))
     = Some \<lparr>docId = 1, docNumPages = 2\<rparr>
   \<and> map (\<lambda>pg. (p_pdfDoc pg, pageNum pg, mounted pg, pageHeight pg))
       (pages (run [Page 0 (Observe True), SetFile ''JVBERi0xLjcK'' ''application/pdf'',
        DecodeOk \<lparr>docId = 1, docNumPages = 2\<rparr>, Page 0 (Resume 0 (Resolved 555 True)),
        Page 2 (Observe True), Page 2 (Resume 0 (Resolved 800 True))] (loaded 2)))
     = [(Some \<lparr>docId = 0, docNumPages = 2\<rparr>, 1, False, None),
        (Some \<lparr>docId = 0, docNumPages = 2\<rparr>, 2, False, None),
        (Some \<lparr>docId = 1, docNumPages = 2\<rparr>, 1, True, Some 800),
        (Some \<lparr>docId = 1, docNumPages = 2\<rparr>, 2, True, None)]
   \<and> estimatedPageHeight (run [Page 0 (Observe True), SetFile ''JVBERi0xLjcK'' ''application/pdf'',
        DecodeOk \<lparr>docId = 1, docNumPages = 2\<rparr>, Page 0 (Resume 0 (Resolved 555 True)),
        Page 2 (Observe True), Page 2 (Resume 0 (Resolved 800 True))] (loaded 2))
     = Some 555"
  by (simp add: run_eval)

lemma pending_fields:
  "0 < pendingLoads (run [WorkerReady] (mountViewer ''JVBERi0xLjQK'' ''application/pdf'' None))"
  "error (run [WorkerReady] (mountViewer ''JVBERi0xLjQK'' ''application/pdf'' None)) = None"
  by (simp_all add: viewer_defs)

text \<open>Witness for C8, as amended: a pending load fails with \<open>PasswordException\<close>, or succeeds with four pages.\<close>

theorem decode_outcome_witness:
  "0 < pendingLoads (run [WorkerReady] (mountViewer ''JVBERi0xLjQK'' ''application/pdf'' None))
   \<and> loadState (step (DecodeFail ''PasswordException'')
        (run [WorkerReady] (mountViewer ''JVBERi0xLjQK'' ''application/pdf'' None))) = Error Password
   \<and> error (run [WorkerReady] (mountViewer ''JVBERi0xLjQK'' ''application/pdf'' None)) = None
   \<and> loadState (step (DecodeOk \<lparr>docId = 0, docNumPages = 4\<rparr>)
        (run [WorkerReady] (mountViewer ''JVBERi0xLjQK'' ''application/pdf'' None))) = Ready
   \<and> numPages (step (DecodeOk \<lparr>docId = 0, docNumPages = 4\<rparr>)
        (run [WorkerReady] (mountViewer ''JVBERi0xLjQK'' ''application/pdf'' None))) = 4"
  using decode_outcome [OF pending_fields(1), of "''PasswordException''" "\<lparr>docId = 0, docNumPages = 4\<rparr>"]
    pending_fields
  by simp

text \<open>
  C8 fails as stated. Two loads overlap: the second file is set while the first is still
  being decoded, the first decoding fails with \<open>PasswordException\<close>, the second
  succeeds. The viewer shows the password error: \<open>loadPdf\<close> sets the document and leaves
  \<open>error\<close> as it is.
\<close>

theorem stale_failure_counterexample:
  "loadState (run [WorkerReady, SetFile ''JVBERi0xLjcK'' ''application/pdf'',
        DecodeFail ''PasswordException'', DecodeOk \<lparr>docId = 1, docNumPages = 2\<rparr>]
        (mountViewer ''JVBERi0xLjQK'' ''application/pdf'' None)) = Error Password
   \<and> pendingLoads (run [WorkerReady, SetFile ''JVBERi0xLjcK'' ''application/pdf'',
        DecodeFail ''PasswordException'']
        (mountViewer ''JVBERi0xLjQK'' ''application/pdf'' None)) = 1"
  by (simp add: run_eval loadState_def)

text \<open>Witness for C9, as amended: the viewer right after a successful load.\<close>

theorem zoom_sequence_rounded_witness:
  "error (loaded 2) = None \<and> isPdf (loaded 2) \<and> scale (loaded 2) = fl (9 / 10)
   \<and> scale (run (replicate 5 ZoomIn @ replicate 8 ZoomOut) (loaded 2))
       = 1351079888211149 / 2251799813685248
   \<and> \<bar>scale (run (replicate 5 ZoomIn @ replicate 8 ZoomOut) (loaded 2))
        - max (1 / 2) (9 / 10 + 5 * (1 / 10) - 8 * (1 / 10))\<bar> \<le> 1 / 2 ^ 53"
  using zoom_sequence_rounded [OF loaded_fields(1) loaded_fields(2) loaded_fields(3)] loaded_fields
  by blast

subsection \<open>Renders that overlap\<close>

text \<open>
  What the source gets right: once a task is in \<open>renderTaskRef\<close>, rendering the page
  again with another document or scale stops it.
\<close>

lemma cancel_not_running: "t < length ts \<Longrightarrow> cancel t ts ! t \<noteq> Running"
  by (simp add: cancel_def)

lemma cancel_length [simp]: "length (cancel t ts) = length ts"
  by (simp add: cancel_def)

lemma cancel_keeps_stopped: "ts ! u \<noteq> Running \<Longrightarrow> cancel t ts ! u \<noteq> Running"
  by (cases "u = t") (simp_all add: cancel_def)

lemma rerender_cancels_current:
  assumes "mounted pg" "hasCleanup pg" "renderTaskRef pg = Some t" "t < length (tasks pg)"
    and "p_pdfDoc pg \<noteq> d \<or> p_scale pg \<noteq> s"
  shows "tasks (rerender d s pg) ! t \<noteq> Running"
proof -
  let ?p = "pg\<lparr>p_pdfDoc := d, p_scale := s\<rparr>"
  have ref: "renderTaskRef (renderCleanup ?p) = Some t"
    using assms(3) by (simp add: renderCleanup_def)
  have stopped: "tasks (renderCleanup ?p) ! t \<noteq> Running"
    using assms(3,4) by (simp add: renderCleanup_def cancel_not_running)
  have "tasks (renderEffect (renderCleanup ?p)) ! t \<noteq> Running"
    using ref stopped by (simp add: renderEffect_def renderPage_def cancel_keeps_stopped)
  then show ?thesis
    using assms(1,2,5) by (auto simp: rerender_def rerunRenderEffect_def)
qed

text \<open>
  C1. A page is revealed and its first \<open>renderPage\<close> waits for \<open>getPage\<close>; the
  scale changes, so the cleanup runs (there is no task yet to cancel) and a second
  \<open>renderPage\<close> starts; both get their page. Now two tasks are running on the one
  canvas and \<open>renderTaskRef\<close> holds the second; nothing cancels the first. When the
  second completes and then the first, the canvas has been painted twice and shows the
  first task's pixels, at the old scale. And when the scale changes once more instead,
  the cleanup cancels the second task and the first is still running.
\<close>

theorem renderPage_race:
  "page_run
     [Observe True, Props (Some \<lparr>docId = 0, docNumPages = 1\<rparr>) 1,
      Resume 0 (Resolved 713 True), Resume 1 (Resolved 792 True)]
     (mountPage 1 (Some \<lparr>docId = 0, docNumPages = 1\<rparr>) (fl (9 / 10)))
   = \<lparr>pageNum = 1, p_pdfDoc = Some \<lparr>docId = 0, docNumPages = 1\<rparr>, p_scale = 1,
      isVisible = True, isRendered = False, pageHeight = Some 792,
      renderTaskRef = Some 1, mounted = True, observing = False, hasCleanup = True,
      coroutines =
        [\<lparr>stage = AwaitRender 0, c_pdfDoc = Some \<lparr>docId = 0, docNumPages = 1\<rparr>,
          c_scale = fl (9 / 10)\<rparr>,
         \<lparr>stage = AwaitRender 1, c_pdfDoc = Some \<lparr>docId = 0, docNumPages = 1\<rparr>,
          c_scale = 1\<rparr>],
      tasks = [Running, Running], canvas = None, commits = []\<rparr>
   \<and> commits (page_run
     [Observe True, Props (Some \<lparr>docId = 0, docNumPages = 1\<rparr>) 1,
      Resume 0 (Resolved 713 True), Resume 1 (Resolved 792 True), TaskDone 1, TaskDone 0]
     (mountPage 1 (Some \<lparr>docId = 0, docNumPages = 1\<rparr>) (fl (9 / 10)))) = [1, 0]
   \<and> canvas (page_run
     [Observe True, Props (Some \<lparr>docId = 0, docNumPages = 1\<rparr>) 1,
      Resume 0 (Resolved 713 True), Resume 1 (Resolved 792 True), TaskDone 1, TaskDone 0]
     (mountPage 1 (Some \<lparr>docId = 0, docNumPages = 1\<rparr>) (fl (9 / 10)))) = Some 0
   \<and> tasks (page_run
     [Observe True, Props (Some \<lparr>docId = 0, docNumPages = 1\<rparr>) 1,
      Resume 0 (Resolved 713 True), Resume 1 (Resolved 792 True),
      Props (Some \<lparr>docId = 0, docNumPages = 1\<rparr>) (fl (9 / 10))]
     (mountPage 1 (Some \<lparr>docId = 0, docNumPages = 1\<rparr>) (fl (9 / 10)))) = [Running, Cancelled]"
  by (simp add: page_defs fl_nine_tenths)

subsection \<open>Loading another file\<close>

text \<open>
  C3. A page of the first document is revealed and waits for \<open>getPage\<close> when another file
  arrives. The load effect clears the estimate. Then the old page's \<open>getPage\<close> resolves:
  its coroutine calls \<open>onDimensionsResolved\<close> before it looks at \<open>canvasRef\<close>, and the
  estimate is the old page's height. And of two tasks running on one canvas (see C1) the
  unmount cancels the one in \<open>renderTaskRef\<close>; the other is still running after the
  transition.
\<close>

theorem new_document_residue:
  "estimatedPageHeight
     (run [Page 0 (Observe True), SetFile ''JVBERi0xLjcK'' ''application/pdf''] (loaded 2)) = None
   \<and> estimatedPageHeight
     (run [Page 0 (Observe True), SetFile ''JVBERi0xLjcK'' ''application/pdf'',
           Page 0 (Resume 0 (Resolved 792 True))] (loaded 2)) = Some 792
   \<and> map tasks (pages
     (run [Page 0 (Observe True), ZoomIn, Page 0 (Resume 0 (Resolved 713 True)),
           Page 0 (Resume 1 (Resolved 792 True)),
           SetFile ''JVBERi0xLjcK'' ''application/pdf''] (loaded 2)))
       = [[Running, Cancelled], []]"
  by (simp add: run_eval fl_eval zoomScale_def)

subsection \<open>An image that does not load\<close>

text \<open>
  C10. A viewer whose PDF failed with \<open>PasswordException\<close> is given an image that does
  not load: \<open>onError\<close> sets \<open>error\<close> and leaves \<open>errorType\<close> at \<open>Password\<close>, so the
  screen shows the lock of a password error. In a freshly mounted viewer the kind is
  \<open>Generic\<close>, the initial value.
\<close>

theorem stale_image_error_kind:
  "render (run [DecodeFail ''PasswordException'', SetFile ''iVBORw0K'' ''image/png'', ImgError]
      (run [WorkerReady] (mountViewer ''JVBERi0xLjQK'' ''application/pdf'' None)))
   = UnableToPreview Password ''Image could not be loaded.''
   \<and> render (run [ImgError] (mountViewer ''iVBORw0K'' ''image/png'' None))
   = UnableToPreview Generic ''Image could not be loaded.''"
  by (simp add: viewer_defs)

end
